theory Spec2Isabelle
  imports Complex_Main "HOL-Library.AList" "HOL-Library.Word"
begin

section \<open>Hand gesture recognition service: the inference pipeline of app/main.py\<close>

subsection \<open>Numbers\<close>

text \<open>
  numpy's float64 values: the finite numbers and the three special values. An operation
  on finite values gives the exact result rounded to float64: the nearest number that
  float64 holds, zero when the result underflows, an infinity when it overflows. The
  rounding is the parameter \<open>rnd\<close> of every operation, from the exact real result to the
  float64 value; what is proved holds for every rounding, the one of IEEE 754 among
  them. The sign of zero is not part of the model. numpy's array operations raise nothing
  on a zero divisor; they return \<open>NaN\<close> for \<open>0/0\<close> and an infinity for \<open>x/0\<close>.
\<close>

datatype float64 = Finite real | PosInf | NegInf | NaN

type_synonym rounding = "real \<Rightarrow> float64"

fun is_finite :: "float64 \<Rightarrow> bool" where
  "is_finite (Finite r) = True"
| "is_finite PosInf = False"
| "is_finite NegInf = False"
| "is_finite NaN = False"

fun fadd :: "rounding \<Rightarrow> float64 \<Rightarrow> float64 \<Rightarrow> float64" where
  "fadd rnd (Finite a) (Finite b) = rnd (a + b)"
| "fadd rnd NaN y = NaN"
| "fadd rnd x NaN = NaN"
| "fadd rnd PosInf NegInf = NaN"
| "fadd rnd NegInf PosInf = NaN"
| "fadd rnd PosInf y = PosInf"
| "fadd rnd NegInf y = NegInf"
| "fadd rnd x PosInf = PosInf"
| "fadd rnd x NegInf = NegInf"

fun fsub :: "rounding \<Rightarrow> float64 \<Rightarrow> float64 \<Rightarrow> float64" where
  "fsub rnd (Finite a) (Finite b) = rnd (a - b)"
| "fsub rnd NaN y = NaN"
| "fsub rnd x NaN = NaN"
| "fsub rnd PosInf PosInf = NaN"
| "fsub rnd NegInf NegInf = NaN"
| "fsub rnd PosInf y = PosInf"
| "fsub rnd NegInf y = NegInf"
| "fsub rnd x PosInf = NegInf"
| "fsub rnd x NegInf = PosInf"

fun fmul :: "rounding \<Rightarrow> float64 \<Rightarrow> float64 \<Rightarrow> float64" where
  "fmul rnd (Finite a) (Finite b) = rnd (a * b)"
| "fmul rnd NaN y = NaN"
| "fmul rnd x NaN = NaN"
| "fmul rnd (Finite a) PosInf = (if a = 0 then NaN else if 0 < a then PosInf else NegInf)"
| "fmul rnd (Finite a) NegInf = (if a = 0 then NaN else if 0 < a then NegInf else PosInf)"
| "fmul rnd PosInf (Finite b) = (if b = 0 then NaN else if 0 < b then PosInf else NegInf)"
| "fmul rnd NegInf (Finite b) = (if b = 0 then NaN else if 0 < b then NegInf else PosInf)"
| "fmul rnd PosInf PosInf = PosInf"
| "fmul rnd PosInf NegInf = NegInf"
| "fmul rnd NegInf PosInf = NegInf"
| "fmul rnd NegInf NegInf = PosInf"

text \<open>
  \<open>a / b\<close> on float64 arrays. A zero divisor is the positive zero (the only zero that
  \<open>np.sqrt\<close> of a sum of squares returns).
\<close>

fun fdiv :: "rounding \<Rightarrow> float64 \<Rightarrow> float64 \<Rightarrow> float64" where
  "fdiv rnd (Finite a) (Finite b) =
     (if b = 0 then (if a = 0 then NaN else if 0 < a then PosInf else NegInf)
      else rnd (a / b))"
| "fdiv rnd NaN y = NaN"
| "fdiv rnd x NaN = NaN"
| "fdiv rnd (Finite a) PosInf = Finite 0"
| "fdiv rnd (Finite a) NegInf = Finite 0"
| "fdiv rnd PosInf (Finite b) = (if 0 \<le> b then PosInf else NegInf)"
| "fdiv rnd NegInf (Finite b) = (if 0 \<le> b then NegInf else PosInf)"
| "fdiv rnd PosInf y = NaN"
| "fdiv rnd NegInf y = NaN"

fun np_sqrt :: "rounding \<Rightarrow> float64 \<Rightarrow> float64" where
  "np_sqrt rnd (Finite a) = (if a < 0 then NaN else rnd (sqrt a))"
| "np_sqrt rnd PosInf = PosInf"
| "np_sqrt rnd NegInf = NaN"
| "np_sqrt rnd NaN = NaN"

text \<open>The larger of two values as \<open>np.max\<close> takes it: a \<open>NaN\<close> wins.\<close>

fun fmax :: "float64 \<Rightarrow> float64 \<Rightarrow> float64" where
  "fmax (Finite a) (Finite b) = Finite (max a b)"
| "fmax NaN y = NaN"
| "fmax x NaN = NaN"
| "fmax PosInf y = PosInf"
| "fmax x PosInf = PosInf"
| "fmax NegInf y = y"
| "fmax x NegInf = x"

text \<open>
  An element of a numpy array with its dtype: int64, where \<open>-\<close>, \<open>+\<close> and \<open>** 2\<close> wrap
  around, or float64. An operation on an int64 and a float64 value, \<open>np.sqrt\<close> and \<open>/\<close>
  first turn the int64 value into the nearest float64.
\<close>

datatype cell = I64 "64 word" | F64 float64

fun cell_finite :: "cell \<Rightarrow> bool" where
  "cell_finite (I64 n) = True"
| "cell_finite (F64 x) = is_finite x"

fun to_float64 :: "rounding \<Rightarrow> cell \<Rightarrow> float64" where
  "to_float64 rnd (I64 n) = rnd (real_of_int (sint n))"
| "to_float64 rnd (F64 x) = x"

fun arr_sub :: "rounding \<Rightarrow> cell \<Rightarrow> cell \<Rightarrow> cell" where
  "arr_sub rnd (I64 a) (I64 b) = I64 (a - b)"
| "arr_sub rnd x y = F64 (fsub rnd (to_float64 rnd x) (to_float64 rnd y))"

fun arr_add :: "rounding \<Rightarrow> cell \<Rightarrow> cell \<Rightarrow> cell" where
  "arr_add rnd (I64 a) (I64 b) = I64 (a + b)"
| "arr_add rnd x y = F64 (fadd rnd (to_float64 rnd x) (to_float64 rnd y))"

text \<open>\<open>a ** 2\<close> on an array.\<close>

fun arr_square :: "rounding \<Rightarrow> cell \<Rightarrow> cell" where
  "arr_square rnd (I64 a) = I64 (a * a)"
| "arr_square rnd (F64 x) = F64 (fmul rnd x x)"

definition arr_sqrt :: "rounding \<Rightarrow> cell \<Rightarrow> float64" where
  "arr_sqrt rnd x = np_sqrt rnd (to_float64 rnd x)"

definition arr_div :: "rounding \<Rightarrow> cell \<Rightarrow> float64 \<Rightarrow> float64" where
  "arr_div rnd x y = fdiv rnd (to_float64 rnd x) y"

subsection \<open>Exceptions and strings\<close>

text \<open>A Python exception: its class and what \<open>str(e)\<close> gives.\<close>

datatype py_exception = PyExc (exc_class: string) (exc_str: string)

definition bind :: "py_exception + 'a \<Rightarrow> ('a \<Rightarrow> py_exception + 'b) \<Rightarrow> py_exception + 'b" where
  "bind m f = (case m of Inl e \<Rightarrow> Inl e | Inr v \<Rightarrow> f v)"

text \<open>A text between single quotes, as Python prints the \<open>repr\<close> of a string.\<close>

definition quoted :: "string \<Rightarrow> string" where
  "quoted s = [CHR 0x27] @ s @ [CHR 0x27]"

text \<open>The decimal text of a natural number, as \<open>f'{i}'\<close> prints it.\<close>

definition digit_char :: "nat \<Rightarrow> char" where
  "digit_char d = ''0123456789'' ! d"

function str_nat :: "nat \<Rightarrow> string" where
  "str_nat n = (if n < 10 then [digit_char n] else str_nat (n div 10) @ [digit_char (n mod 10)])"
  by pat_completeness auto
termination
  by (relation "measure (\<lambda>n. n)") auto

declare str_nat.simps [simp del]

text \<open>The name of a column, \<open>f'{axis}{i}'\<close>.\<close>

definition column_name :: "string \<Rightarrow> nat \<Rightarrow> string" where
  "column_name axis i = axis @ str_nat i"

subsection \<open>The feature frame\<close>

text \<open>
  The pandas DataFrame that \<open>predict_gesture\<close> builds has one row
  (\<open>reshape(1, -1)\<close>), so a column holds one array element. The frame is the list of its
  columns in order. \<open>df[name]\<close> raises KeyError on a missing column. The assignment
  \<open>df[name] = v\<close> replaces the column by the array that the right-hand side built;
  pandas does not write into the array the column held before. So \<open>wrist_x\<close> and
  \<open>wrist_y\<close>, read by \<open>.values\<close> before the loop, keep the raw values while the loop
  rewrites the columns x1 and y1.
\<close>

type_synonym frame = "(string \<times> cell) list"

definition getitem :: "frame \<Rightarrow> string \<Rightarrow> py_exception + cell" where
  "getitem df name =
     (case map_of df name of
        None \<Rightarrow> Inl (PyExc ''KeyError'' (quoted name))
      | Some v \<Rightarrow> Inr v)"

definition setitem :: "frame \<Rightarrow> string \<Rightarrow> cell \<Rightarrow> frame" where
  "setitem df name v = AList.update name v df"

text \<open>
  \<open>normalize_landmarks\<close>, lines 16 to 33. The four anchor values and the scale factor
  are read and computed before the loop; the loop body rewrites column \<open>x{i}\<close>, then
  column \<open>y{i}\<close>. The two \<open>print\<close> calls after the loop only read the columns x1, y1,
  x13 and y13 and are left out.
\<close>

fun normalize_loop ::
  "rounding \<Rightarrow> cell \<Rightarrow> cell \<Rightarrow> float64 \<Rightarrow> nat list \<Rightarrow> frame \<Rightarrow> py_exception + frame" where
  "normalize_loop rnd wrist_x wrist_y scale_factor [] df = Inr df"
| "normalize_loop rnd wrist_x wrist_y scale_factor (i # rest) df =
     bind (getitem df (column_name ''x'' i)) (\<lambda>xi.
       let df1 = setitem df (column_name ''x'' i)
                   (F64 (arr_div rnd (arr_sub rnd xi wrist_x) scale_factor)) in
       bind (getitem df1 (column_name ''y'' i)) (\<lambda>yi.
         let df2 = setitem df1 (column_name ''y'' i)
                     (F64 (arr_div rnd (arr_sub rnd yi wrist_y) scale_factor)) in
         normalize_loop rnd wrist_x wrist_y scale_factor rest df2))"

text \<open>Line 23, the scale factor.\<close>

definition scale_of :: "rounding \<Rightarrow> cell \<Rightarrow> cell \<Rightarrow> cell \<Rightarrow> cell \<Rightarrow> float64" where
  "scale_of rnd wrist_x wrist_y middle_tip_x middle_tip_y =
     arr_sqrt rnd (arr_add rnd (arr_square rnd (arr_sub rnd middle_tip_x wrist_x))
                               (arr_square rnd (arr_sub rnd middle_tip_y wrist_y)))"

definition normalize_landmarks :: "rounding \<Rightarrow> frame \<Rightarrow> py_exception + frame" where
  "normalize_landmarks rnd df =
     bind (getitem df ''x1'') (\<lambda>wrist_x.
     bind (getitem df ''y1'') (\<lambda>wrist_y.
     bind (getitem df ''x13'') (\<lambda>middle_tip_x.
     bind (getitem df ''y13'') (\<lambda>middle_tip_y.
       let scale_factor = scale_of rnd wrist_x wrist_y middle_tip_x middle_tip_y in
       normalize_loop rnd wrist_x wrist_y scale_factor [1..<22] df))))"

text \<open>
  Line 135: the column names in the order x1, y1, z1, x2, \<dots>, z21; line 136: the frame
  of one row under these names, which pandas refuses when the row has another length.
\<close>

definition feature_names :: "string list" where
  "feature_names =
     concat (map (\<lambda>i. map (\<lambda>axis. column_name axis i) [''x'', ''y'', ''z'']) [1..<22])"

definition DataFrame :: "cell list \<Rightarrow> string list \<Rightarrow> py_exception + frame" where
  "DataFrame row columns =
     (if length row = length columns then Inr (zip columns row)
      else Inl (PyExc ''ValueError''
        (''Shape of passed values is (1, '' @ str_nat (length row) @ ''), indices imply (1, ''
           @ str_nat (length columns) @ '')'')))"

subsection \<open>The request payload\<close>

text \<open>
  The value that \<open>json.loads\<close> builds from a request body. An object keeps its pairs in
  the order of the document; a key written twice has the value written last. A character
  of a string stands for one code point.
\<close>

datatype json =
    JNull
  | JBool bool
  | JInt int
  | JFloat float64
  | JStr string
  | JArr "json list"
  | JObj "(string \<times> json) list"

fun type_name :: "json \<Rightarrow> string" where
  "type_name JNull = ''NoneType''"
| "type_name (JBool b) = ''bool''"
| "type_name (JInt n) = ''int''"
| "type_name (JFloat f) = ''float''"
| "type_name (JStr s) = ''str''"
| "type_name (JArr xs) = ''list''"
| "type_name (JObj kvs) = ''dict''"

text \<open>\<open>data.get(key)\<close>: the value under the key or None on a dict, AttributeError on
  every other value.\<close>

fun data_get :: "json \<Rightarrow> string \<Rightarrow> py_exception + json" where
  "data_get (JObj kvs) key =
     Inr (case map_of (rev kvs) key of None \<Rightarrow> JNull | Some v \<Rightarrow> v)"
| "data_get v key =
     Inl (PyExc ''AttributeError''
       (quoted (type_name v) @ '' object has no attribute '' @ quoted ''get''))"

text \<open>Python's truth value of an object, as \<open>not landmarks\<close> takes it.\<close>

fun truthy :: "json \<Rightarrow> bool" where
  "truthy JNull = False"
| "truthy (JBool b) = b"
| "truthy (JInt n) = (n \<noteq> 0)"
| "truthy (JFloat f) = (f \<noteq> Finite 0)"
| "truthy (JStr s) = (s \<noteq> [])"
| "truthy (JArr xs) = (xs \<noteq> [])"
| "truthy (JObj kvs) = (kvs \<noteq> [])"

text \<open>\<open>len(v)\<close>: TypeError on a value that has no length.\<close>

fun py_len :: "json \<Rightarrow> py_exception + nat" where
  "py_len (JStr s) = Inr (length s)"
| "py_len (JArr xs) = Inr (length xs)"
| "py_len (JObj kvs) = Inr (length (remdups (map fst kvs)))"
| "py_len v =
     Inl (PyExc ''TypeError'' (''object of type '' @ quoted (type_name v) @ '' has no len()''))"

text \<open>
  \<open>np.array(landmarks).reshape(1, -1)\<close> on a list of JSON numbers: an int64 row when every
  entry is an integer that fits 64 bits, a float64 row when the entries are such integers
  and floats, each integer turned into the nearest float64. On any other value the result
  is \<open>None\<close> here and left to \<open>numpy_other\<close> below.
\<close>

fun int64_of :: "json \<Rightarrow> 64 word option" where
  "int64_of (JInt n) = (if - (2 ^ 63) \<le> n \<and> n < 2 ^ 63 then Some (word_of_int n) else None)"
| "int64_of v = None"

fun float64_of :: "rounding \<Rightarrow> json \<Rightarrow> float64 option" where
  "float64_of rnd (JInt n) =
     (if - (2 ^ 63) \<le> n \<and> n < 2 ^ 63 then Some (rnd (of_int n)) else None)"
| "float64_of rnd (JFloat f) = Some f"
| "float64_of rnd v = None"

fun numeric_row :: "rounding \<Rightarrow> json \<Rightarrow> cell list option" where
  "numeric_row rnd (JArr xs) =
     (case those (map int64_of xs) of
        Some ns \<Rightarrow> Some (map I64 ns)
      | None \<Rightarrow>
          (case those (map (float64_of rnd) xs) of
             Some fs \<Rightarrow> Some (map F64 fs)
           | None \<Rightarrow> None))"
| "numeric_row rnd v = None"

subsection \<open>The classifier, the label decoder and the process environment\<close>

text \<open>
  The two pickled artifacts are not part of the repository. The classifier is taken as a
  parameter: what \<open>model.predict(features)[0]\<close> and \<open>model.predict_proba(features)[0]\<close>
  give on a frame, a value or the exception they raise.
\<close>

record classifier =
  predict :: "frame \<Rightarrow> py_exception + int"
  predict_proba :: "frame \<Rightarrow> py_exception + float64 list"

text \<open>
  Modelled from the spec: the classifier fails on non-finite input (section 4.3, the
  failures of the classifier adapter). The pickled classifier is missing; the exception
  comes from its \<open>predict\<close>, the first call made on the frame.
\<close>

definition refuses_non_finite :: "classifier \<Rightarrow> bool" where
  "refuses_non_finite clf \<longleftrightarrow>
     (\<forall>features. \<not> list_all cell_finite (map snd features)
        \<longrightarrow> (\<exists>e. predict clf features = Inl e))"

text \<open>
  Modelled from the spec: the label decoder, which the pickled file holds and the spec
  describes as a map from an integer class id to a gesture name of a fixed vocabulary,
  with a failure on a class id it does not know.
\<close>

record decoder =
  classes :: "string list"
  unseen_label :: "int \<Rightarrow> py_exception"

text \<open>
  Modelled from the spec: \<open>label_encoder.inverse_transform([prediction])[0]\<close>, the name
  of a class id of the vocabulary and the decoder's exception on any other.
\<close>

definition inverse_transform :: "decoder \<Rightarrow> int \<Rightarrow> py_exception + string" where
  "inverse_transform enc y =
     (if 0 \<le> y \<and> y < int (length (classes enc)) then Inr (classes enc ! nat y)
      else Inl (unseen_label enc y))"

text \<open>
  The module globals \<open>model\<close> and \<open>label_encoder\<close> (None when loading failed), the
  rounding of the machine's float64 arithmetic, and what numpy and pandas make of a
  landmarks value of length 63 that is not a list of numbers as above (a string, a dict,
  a list with strings, booleans, nulls, nested lists or integers beyond 64 bits) in
  lines 134 to 137: an exception or the frame handed to the classifier.
\<close>

record env =
  model :: "classifier option"
  label_encoder :: "decoder option"
  rounding :: rounding
  numpy_other :: "json \<Rightarrow> py_exception + frame"

definition GESTURE_MAPPING :: "(string \<times> string) list" where
  "GESTURE_MAPPING =
     [(''like'', ''up''), (''dislike'', ''down''), (''two_up'', ''right''),
      (''two_up_inverted'', ''left'')]"

fun np_max :: "float64 list \<Rightarrow> py_exception + float64" where
  "np_max [] =
     Inl (PyExc ''ValueError''
       ''zero-size array to reduction operation maximum which has no identity'')"
| "np_max (p # ps) = Inr (foldl fmax p ps)"

text \<open>Lines 134 to 137: the feature frame, normalised.\<close>

definition build_features :: "env \<Rightarrow> json \<Rightarrow> py_exception + frame" where
  "build_features env landmarks =
     (case numeric_row (rounding env) landmarks of
        Some row \<Rightarrow>
          bind (DataFrame row feature_names) (normalize_landmarks (rounding env))
      | None \<Rightarrow> numpy_other env landmarks)"

text \<open>Lines 138 to 143: the classifier's class and probabilities, the confidence, the
  decoded gesture and its direction.\<close>

definition classify ::
  "classifier \<Rightarrow> decoder \<Rightarrow> frame \<Rightarrow> py_exception + (string \<times> string option \<times> float64)" where
  "classify clf enc features =
     bind (predict clf features) (\<lambda>prediction.
     bind (predict_proba clf features) (\<lambda>probabilities.
     bind (np_max probabilities) (\<lambda>confidence.
     bind (inverse_transform enc prediction) (\<lambda>gesture.
       Inr (gesture, map_of GESTURE_MAPPING gesture, confidence)))))"

text \<open>Lines 134 to 143, the part of the \<open>try\<close> block that can raise.\<close>

definition infer ::
  "env \<Rightarrow> classifier \<Rightarrow> decoder \<Rightarrow> json \<Rightarrow> py_exception + (string \<times> string option \<times> float64)" where
  "infer env clf enc landmarks = bind (build_features env landmarks) (classify clf enc)"

subsection \<open>Metrics and the prediction endpoint\<close>

record metrics =
  prediction_count :: int
  error_count :: int
  latency_sum :: real

definition initial_metrics :: metrics where
  "initial_metrics = \<lparr>prediction_count = 0, error_count = 0, latency_sum = 0\<rparr>"

text \<open>
  One call of the endpoint: what \<open>await request.json()\<close> gives (the decoded body, or the
  exception of the decoder), the two readings of \<open>time.time()\<close> at lines 114 and 145, and
  the text of \<open>datetime.now().isoformat()\<close> at line 155.
\<close>

record request =
  request_json :: "py_exception + json"
  clock_start :: real
  clock_end :: real
  now_iso :: string

record prediction_response =
  gesture :: string
  direction :: "string option"
  confidence :: float64
  timestamp :: string

text \<open>
  How a call ends: the dict returned at line 151, one of the four HTTPException raised
  (with the place that raised it, the status code and the detail), or an exception that
  leaves the function uncaught.
\<close>

datatype stage = Load_check | Json_check | Count_check | Inference

datatype outcome =
    Returned prediction_response
  | HTTP_error stage nat string
  | Uncaught py_exception

text \<open>The records written to the logger; the text of the info record is not modelled.\<close>

datatype log_record =
    Log_error string
  | Log_info_prediction string "string option" float64

definition predict_gesture ::
  "env \<Rightarrow> request \<Rightarrow> metrics \<Rightarrow> outcome \<times> log_record list \<times> metrics" where
  "predict_gesture env request st =
     (if model env = None \<or> label_encoder env = None then
        (HTTP_error Load_check 500 ''Model or encoder not loaded'', [], st)
      else
        case bind (request_json request) (\<lambda>data. data_get data ''landmarks'') of
          Inl e \<Rightarrow>
            (HTTP_error Json_check 400 ''Invalid JSON input'',
             [Log_error (''Invalid JSON input: '' @ exc_str e)], st)
        | Inr landmarks \<Rightarrow>
            (case (if \<not> truthy landmarks then Inr True
                   else bind (py_len landmarks) (\<lambda>n. Inr (n \<noteq> 63))) of
               Inl e \<Rightarrow> (Uncaught e, [], st)
             | Inr True \<Rightarrow>
                 (HTTP_error Count_check 400 ''Expected 63 landmark features'',
                  [Log_error (''Invalid input length: expected 63 landmarks, got '' @
                     (if truthy landmarks
                      then (case py_len landmarks of Inr n \<Rightarrow> str_nat n | Inl e \<Rightarrow> [])
                      else ''none''))],
                  st)
             | Inr False \<Rightarrow>
                 (case infer env (the (model env)) (the (label_encoder env)) landmarks of
                    Inr (label, dir, conf) \<Rightarrow>
                      (Returned \<lparr>gesture = label, direction = dir,
                                 confidence = conf, timestamp = now_iso request\<rparr>,
                       [Log_info_prediction label dir conf],
                       st\<lparr>latency_sum := latency_sum st + (clock_end request - clock_start request),
                          prediction_count := prediction_count st + 1\<rparr>)
                  | Inl e \<Rightarrow>
                      (HTTP_error Inference 500 (exc_str e),
                       [Log_error (''Prediction error: '' @ exc_str e)],
                       st\<lparr>error_count := error_count st + 1\<rparr>))))"

text \<open>
  The process serves the calls one after another from the metrics the call before left:
  the handler reaches no \<open>await\<close> after it first touches a counter.
\<close>

fun serve :: "env \<Rightarrow> request list \<Rightarrow> metrics \<Rightarrow> outcome list \<times> metrics" where
  "serve env [] st = ([], st)"
| "serve env (r # rs) st =
     (case predict_gesture env r st of
        (out, logs, st1) \<Rightarrow> (case serve env rs st1 of (outs, st2) \<Rightarrow> (out # outs, st2)))"

subsection \<open>The metrics endpoint\<close>

record model_metrics =
  reported_prediction_count :: int
  reported_error_count :: int
  error_rate :: real
  average_latency :: real

record data_metrics =
  input_validation_errors :: int
  last_prediction_time :: string

record server_metrics =
  uptime :: real
  status :: string

record metrics_report =
  model_metrics :: model_metrics
  data_metrics :: data_metrics
  server_metrics :: server_metrics

text \<open>\<open>get_metrics\<close>, lines 166 to 184, with \<open>app_start_time\<close>, the reading of
  \<open>time.time()\<close> and the text of \<open>datetime.now().isoformat()\<close> as arguments.\<close>

definition get_metrics :: "real \<Rightarrow> real \<Rightarrow> string \<Rightarrow> metrics \<Rightarrow> metrics_report" where
  "get_metrics app_start_time now now_text st =
     (let avg_latency =
            (if prediction_count st > 0 then latency_sum st / of_int (prediction_count st)
             else 0)
      in \<lparr>model_metrics =
             \<lparr>reported_prediction_count = prediction_count st,
              reported_error_count = error_count st,
              error_rate = of_int (error_count st) / of_int (max (prediction_count st) 1),
              average_latency = avg_latency\<rparr>,
           data_metrics =
             \<lparr>input_validation_errors = error_count st,
              last_prediction_time = now_text\<rparr>,
           server_metrics = \<lparr>uptime = now - app_start_time, status = ''running''\<rparr>\<rparr>)"

subsection \<open>Notions used in the statements\<close>

text \<open>How a call ended: with the returned dict, with the HTTPException of the \<open>except\<close>
  branch at line 161, or before the \<open>try\<close> block at line 132 was entered.\<close>

fun is_success :: "outcome \<Rightarrow> bool" where
  "is_success (Returned p) = True"
| "is_success out = False"

fun is_inference_failure :: "outcome \<Rightarrow> bool" where
  "is_inference_failure (HTTP_error Inference code detail) = True"
| "is_inference_failure out = False"

fun is_validation_failure :: "outcome \<Rightarrow> bool" where
  "is_validation_failure (Returned p) = False"
| "is_validation_failure (HTTP_error Inference code detail) = False"
| "is_validation_failure out = True"

definition latency :: "request \<Rightarrow> real" where
  "latency r = clock_end r - clock_start r"

definition successful_latencies :: "request list \<Rightarrow> outcome list \<Rightarrow> real list" where
  "successful_latencies reqs outs =
     map (\<lambda>(r, out). latency r) (filter (\<lambda>(r, out). is_success out) (zip reqs outs))"

text \<open>A row of per-class probabilities: not empty, every entry a number between 0 and 1.\<close>

definition probability_row :: "float64 list \<Rightarrow> bool" where
  "probability_row ps \<longleftrightarrow> ps \<noteq> [] \<and> list_all (\<lambda>p. case p of Finite q \<Rightarrow> 0 \<le> q \<and> q \<le> 1 | _ \<Rightarrow> False) ps"

text \<open>Whether a text occurs inside another.\<close>

fun starts_with :: "string \<Rightarrow> string \<Rightarrow> bool" where
  "starts_with [] s = True"
| "starts_with (c # cs) [] = False"
| "starts_with (c # cs) (d # ds) = (c = d \<and> starts_with cs ds)"

fun contains :: "string \<Rightarrow> string \<Rightarrow> bool" where
  "contains sub [] = (sub = [])"
| "contains sub (c # cs) = (starts_with sub (c # cs) \<or> contains sub cs)"

subsection \<open>Sample classifiers, environments and calls\<close>

text \<open>A classifier that answers every frame with the same class and the same
  probabilities, and one that refuses a frame with a value that is not finite, as the
  input check of scikit-learn does. The sample environments round nothing: the numbers
  of the sample poses and of their normalised frames are kept as they are.\<close>

definition constant_classifier :: "int \<Rightarrow> float64 list \<Rightarrow> classifier" where
  "constant_classifier k ps =
     \<lparr>predict = (\<lambda>features. Inr k), predict_proba = (\<lambda>features. Inr ps)\<rparr>"

definition finite_only_classifier :: classifier where
  "finite_only_classifier =
     \<lparr>predict = (\<lambda>features. if list_all cell_finite (map snd features) then Inr 1
                             else Inl (PyExc ''ValueError'' ''Input X contains NaN.'')),
      predict_proba = (\<lambda>features. Inr [Finite 0, Finite 1])\<rparr>"

definition gesture_decoder :: decoder where
  "gesture_decoder =
     \<lparr>classes = [''dislike'', ''like'', ''two_up'', ''two_up_inverted''],
      unseen_label = (\<lambda>y. PyExc ''ValueError'' ''y contains previously unseen labels'')\<rparr>"

definition service :: "classifier \<Rightarrow> env" where
  "service clf =
     \<lparr>model = Some clf, label_encoder = Some gesture_decoder, rounding = Finite,
      numpy_other = (\<lambda>landmarks. Inl (PyExc ''ValueError''
        ''Shape of passed values is (1, 1), indices imply (1, 63)''))\<rparr>"

definition not_loaded :: env where
  "not_loaded =
     \<lparr>model = None, label_encoder = None, rounding = Finite,
      numpy_other = (\<lambda>landmarks. Inl (PyExc ''ValueError''
        ''Shape of passed values is (1, 1), indices imply (1, 63)''))\<rparr>"

definition call :: "py_exception + json \<Rightarrow> real \<Rightarrow> request" where
  "call body seconds =
     \<lparr>request_json = body, clock_start = 0, clock_end = seconds,
      now_iso = ''2025-01-01T00:00:00''\<rparr>"

definition landmarks_body :: "float64 list \<Rightarrow> py_exception + json" where
  "landmarks_body row = Inr (JObj [(''landmarks'', JArr (map JFloat row))])"

text \<open>A pose with every coordinate 0, and a pose with landmark 1 at (1, 2, 0), landmark 2
  at (6, 2, 9), landmark 13 at (4, 6, 0) and every other coordinate 0.\<close>

definition zero_pose :: "float64 list" where
  "zero_pose = replicate 63 (Finite 0)"

definition open_pose_coordinates :: "real list" where
  "open_pose_coordinates = [1, 2, 0, 6, 2, 9] @ replicate 30 0 @ [4, 6, 0] @ replicate 24 0"

definition open_pose :: "float64 list" where
  "open_pose = map Finite open_pose_coordinates"


section \<open>Properties\<close>

subsection \<open>Column names and the normalisation loop\<close>

lemma digit_char_inj: "a < 10 \<Longrightarrow> b < 10 \<Longrightarrow> digit_char a = digit_char b \<Longrightarrow> a = b"
proof -
  assume a: "a < 10" and b: "b < 10" and e: "digit_char a = digit_char b"
  have d: "distinct ''0123456789''" by simp
  have "a < length ''0123456789''" "b < length ''0123456789''" using a b by simp_all
  with d e show "a = b" unfolding digit_char_def using nth_eq_iff_index_eq by blast
qed

lemma str_nat_nonempty: "str_nat n \<noteq> []"
  by (subst str_nat.simps) simp

lemma str_nat_length_ge2: "10 \<le> n \<Longrightarrow> 2 \<le> length (str_nat n)"
proof -
  assume "10 \<le> n"
  then have "str_nat n = str_nat (n div 10) @ [digit_char (n mod 10)]"
    by (subst str_nat.simps) simp
  moreover have "1 \<le> length (str_nat (n div 10))"
    using str_nat_nonempty [of "n div 10"] by (cases "str_nat (n div 10)") auto
  ultimately show ?thesis by simp
qed

lemma str_nat_inj: "str_nat n = str_nat m \<Longrightarrow> n = m"
proof (induction n arbitrary: m rule: str_nat.induct)
  case (1 n)
  show ?case
  proof (cases "n < 10")
    case True
    then have sn: "str_nat n = [digit_char n]" by (subst str_nat.simps) simp
    show ?thesis
    proof (cases "m < 10")
      case mt: True
      then have "str_nat m = [digit_char m]" by (subst str_nat.simps) simp
      with sn "1.prems" True mt show ?thesis by (simp add: digit_char_inj)
    next
      case False
      then have "2 \<le> length (str_nat m)" by (simp add: str_nat_length_ge2)
      with sn "1.prems" show ?thesis by simp
    qed
  next
    case False
    then have sn: "str_nat n = str_nat (n div 10) @ [digit_char (n mod 10)]"
      by (subst str_nat.simps) simp
    show ?thesis
    proof (cases "m < 10")
      case True
      then have "str_nat m = [digit_char m]" by (subst str_nat.simps) simp
      moreover from False have "2 \<le> length (str_nat n)" by (simp add: str_nat_length_ge2)
      ultimately show ?thesis using "1.prems" by simp
    next
      case mf: False
      then have sm: "str_nat m = str_nat (m div 10) @ [digit_char (m mod 10)]"
        by (subst str_nat.simps) simp
      from sn sm "1.prems"
      have a: "str_nat (n div 10) = str_nat (m div 10)"
        and b: "digit_char (n mod 10) = digit_char (m mod 10)" by simp_all
      from "1.IH" [OF False a] have "n div 10 = m div 10" .
      moreover from b have "n mod 10 = m mod 10" by (simp add: digit_char_inj)
      ultimately show ?thesis by (metis div_mult_mod_eq)
    qed
  qed
qed

lemma column_name_eq [simp]:
  "column_name [a] i = column_name [b] j \<longleftrightarrow> a = b \<and> i = j"
  using str_nat_inj by (auto simp: column_name_def)

lemma map_of_setitem: "map_of (setitem df k v) = (map_of df)(k \<mapsto> v)"
  by (simp add: setitem_def update_conv')

lemma keys_setitem: "map_of df k \<noteq> None \<Longrightarrow> map fst (setitem df k v) = map fst df"
  unfolding setitem_def
  by (induction df) auto

lemma getitem_Some: "map_of df k = Some v \<Longrightarrow> getitem df k = Inr v"
  by (simp add: getitem_def)

text \<open>What the loop leaves in each column, given the columns it rewrites exist.\<close>

lemma normalize_loop_columns:
  assumes "distinct js"
      and "\<forall>i\<in>set js. map_of df (column_name ''x'' i) \<noteq> None \<and> map_of df (column_name ''y'' i) \<noteq> None"
  shows "\<exists>df'. normalize_loop rnd wx wy s js df = Inr df'
          \<and> map fst df' = map fst df
          \<and> (\<forall>i\<in>set js.
                map_of df' (column_name ''x'' i)
                  = Some (F64 (arr_div rnd (arr_sub rnd (the (map_of df (column_name ''x'' i))) wx) s))
              \<and> map_of df' (column_name ''y'' i)
                  = Some (F64 (arr_div rnd (arr_sub rnd (the (map_of df (column_name ''y'' i))) wy) s)))
          \<and> (\<forall>k. (\<forall>i\<in>set js. k \<noteq> column_name ''x'' i \<and> k \<noteq> column_name ''y'' i)
                  \<longrightarrow> map_of df' k = map_of df k)"
  using assms
proof (induction js arbitrary: df)
  case Nil
  then show ?case by simp
next
  case (Cons j js)
  let ?xj = "column_name ''x'' j" and ?yj = "column_name ''y'' j"
  from Cons.prems obtain xv yv where xv: "map_of df ?xj = Some xv" and yv: "map_of df ?yj = Some yv"
    by auto
  let ?df1 = "setitem df ?xj (F64 (arr_div rnd (arr_sub rnd xv wx) s))"
  let ?df2 = "setitem ?df1 ?yj (F64 (arr_div rnd (arr_sub rnd yv wy) s))"
  have y1: "map_of ?df1 ?yj = Some yv" using yv by (simp add: map_of_setitem)
  have step: "normalize_loop rnd wx wy s (j # js) df = normalize_loop rnd wx wy s js ?df2"
    using xv yv by (simp add: bind_def getitem_def map_of_setitem Let_def)
  have m2: "map_of ?df2 = (map_of df)(?xj \<mapsto> (F64 (arr_div rnd (arr_sub rnd xv wx) s)), ?yj \<mapsto> (F64 (arr_div rnd (arr_sub rnd yv wy) s)))"
    by (simp add: map_of_setitem)
  have k2: "map fst ?df2 = map fst df"
    using xv y1 by (simp add: keys_setitem)
  have dj: "distinct js" and jn: "j \<notin> set js" using Cons.prems(1) by auto
  have pre: "\<forall>i\<in>set js. map_of ?df2 (column_name ''x'' i) \<noteq> None \<and> map_of ?df2 (column_name ''y'' i) \<noteq> None"
    using Cons.prems(2) by (simp add: m2)
  from Cons.IH [OF dj pre] obtain df' where
    r: "normalize_loop rnd wx wy s js ?df2 = Inr df'"
    and ks: "map fst df' = map fst ?df2"
    and upd: "\<forall>i\<in>set js.
                map_of df' (column_name ''x'' i)
                  = Some (F64 (arr_div rnd (arr_sub rnd (the (map_of ?df2 (column_name ''x'' i))) wx) s))
              \<and> map_of df' (column_name ''y'' i)
                  = Some (F64 (arr_div rnd (arr_sub rnd (the (map_of ?df2 (column_name ''y'' i))) wy) s))"
    and keep: "\<forall>k. (\<forall>i\<in>set js. k \<noteq> column_name ''x'' i \<and> k \<noteq> column_name ''y'' i)
                  \<longrightarrow> map_of df' k = map_of ?df2 k"
    by blast
  have ne: "\<And>i. i \<in> set js \<Longrightarrow> i \<noteq> j"
    using jn by blast
  have old: "\<And>i. i \<in> set js \<Longrightarrow> map_of ?df2 (column_name ''x'' i) = map_of df (column_name ''x'' i)
                \<and> map_of ?df2 (column_name ''y'' i) = map_of df (column_name ''y'' i)"
    using ne by (simp add: m2)
  have kj: "\<forall>i\<in>set js. ?xj \<noteq> column_name ''x'' i \<and> ?xj \<noteq> column_name ''y'' i
                      \<and> ?yj \<noteq> column_name ''x'' i \<and> ?yj \<noteq> column_name ''y'' i"
    using ne by auto
  have xj': "map_of df' ?xj = Some (F64 (arr_div rnd (arr_sub rnd xv wx) s))"
    using keep kj by (simp add: m2)
  have yj': "map_of df' ?yj = Some (F64 (arr_div rnd (arr_sub rnd yv wy) s))"
    using keep kj by (simp add: m2)
  show ?case
  proof (intro exI conjI)
    show "normalize_loop rnd wx wy s (j # js) df = Inr df'" using step r by simp
    show "map fst df' = map fst df" using ks k2 by simp
    show "\<forall>i\<in>set (j # js).
            map_of df' (column_name ''x'' i)
              = Some (F64 (arr_div rnd (arr_sub rnd (the (map_of df (column_name ''x'' i))) wx) s))
          \<and> map_of df' (column_name ''y'' i)
              = Some (F64 (arr_div rnd (arr_sub rnd (the (map_of df (column_name ''y'' i))) wy) s))"
      using upd old xj' yj' xv yv by simp
    show "\<forall>k. (\<forall>i\<in>set (j # js). k \<noteq> column_name ''x'' i \<and> k \<noteq> column_name ''y'' i)
            \<longrightarrow> map_of df' k = map_of df k"
      using keep by (simp add: m2)
  qed
qed

lemma feature_names_length: "length feature_names = 63"
  by code_simp

lemma feature_names_distinct: "distinct feature_names"
  by code_simp

lemma feature_names_nth:
  "\<forall>i\<in>set [1..<22]. feature_names ! (3 * (i - 1)) = column_name ''x'' i
      \<and> feature_names ! (3 * (i - 1) + 1) = column_name ''y'' i
      \<and> feature_names ! (3 * (i - 1) + 2) = column_name ''z'' i"
  by code_simp

lemma anchor_names:
  "''x1'' = column_name ''x'' 1" "''y1'' = column_name ''y'' 1"
  "''x13'' = column_name ''x'' 13" "''y13'' = column_name ''y'' 13"
  by code_simp+

lemma frame_column:
  assumes "length row = 63" and "k < 63"
  shows "map_of (zip feature_names row) (feature_names ! k) = Some (row ! k)"
  using assms by (simp add: map_of_zip_nth feature_names_length feature_names_distinct)

lemma frame_landmark_columns:
  assumes len: "length row = 63" and i: "i \<in> {1..21}"
  shows "map_of (zip feature_names row) (column_name ''x'' i) = Some (row ! (3 * (i - 1)))"
    and "map_of (zip feature_names row) (column_name ''y'' i) = Some (row ! (3 * (i - 1) + 1))"
    and "map_of (zip feature_names row) (column_name ''z'' i) = Some (row ! (3 * (i - 1) + 2))"
proof -
  from i have m: "i \<in> set [1..<22]" by auto
  from i have b: "3 * (i - 1) < 63" "3 * (i - 1) + 1 < 63" "3 * (i - 1) + 2 < 63" by auto
  from feature_names_nth m
  have n: "feature_names ! (3 * (i - 1)) = column_name ''x'' i"
          "feature_names ! (3 * (i - 1) + 1) = column_name ''y'' i"
          "feature_names ! (3 * (i - 1) + 2) = column_name ''z'' i" by blast+
  show "map_of (zip feature_names row) (column_name ''x'' i) = Some (row ! (3 * (i - 1)))"
    using frame_column [OF len b(1)] n(1) by simp
  show "map_of (zip feature_names row) (column_name ''y'' i) = Some (row ! (3 * (i - 1) + 1))"
    using frame_column [OF len b(2)] n(2) by simp
  show "map_of (zip feature_names row) (column_name ''z'' i) = Some (row ! (3 * (i - 1) + 2))"
    using frame_column [OF len b(3)] n(3) by simp
qed

lemma normalize_landmarks_frame:
  assumes len: "length row = 63"
  shows "\<exists>df'. normalize_landmarks rnd (zip feature_names row) = Inr df'
          \<and> map fst df' = feature_names
          \<and> (\<forall>i\<in>{1..21}.
                map_of df' (column_name ''x'' i)
                  = Some (F64 (arr_div rnd (arr_sub rnd (row ! (3 * (i - 1))) (row ! 0))
                            (scale_of rnd (row ! 0) (row ! 1) (row ! 36) (row ! 37))))
              \<and> map_of df' (column_name ''y'' i)
                  = Some (F64 (arr_div rnd (arr_sub rnd (row ! (3 * (i - 1) + 1)) (row ! 1))
                            (scale_of rnd (row ! 0) (row ! 1) (row ! 36) (row ! 37))))
              \<and> map_of df' (column_name ''z'' i) = Some (row ! (3 * (i - 1) + 2)))"
proof -
  let ?df = "zip feature_names row"
  let ?s = "scale_of rnd (row ! 0) (row ! 1) (row ! 36) (row ! 37)"
  have a: "map_of ?df ''x1'' = Some (row ! 0)" "map_of ?df ''y1'' = Some (row ! 1)"
          "map_of ?df ''x13'' = Some (row ! 36)" "map_of ?df ''y13'' = Some (row ! 37)"
    using frame_landmark_columns(1,2) [OF len, of 1] frame_landmark_columns(1,2) [OF len, of 13]
    by (simp_all add: anchor_names)
  have start: "normalize_landmarks rnd ?df = normalize_loop rnd (row ! 0) (row ! 1) ?s [1..<22] ?df"
    by (simp add: normalize_landmarks_def bind_def getitem_def a)
  have present: "\<forall>i\<in>set [1..<22]. map_of ?df (column_name ''x'' i) \<noteq> None
                    \<and> map_of ?df (column_name ''y'' i) \<noteq> None"
  proof
    fix i assume "i \<in> set [1..<22]"
    then have "i \<in> {1..21}" by auto
    from frame_landmark_columns(1,2) [OF len this]
    show "map_of ?df (column_name ''x'' i) \<noteq> None \<and> map_of ?df (column_name ''y'' i) \<noteq> None"
      by simp
  qed
  from normalize_loop_columns [OF distinct_upt present, of rnd "row ! 0" "row ! 1" ?s]
  obtain df' where
    r: "normalize_loop rnd (row ! 0) (row ! 1) ?s [1..<22] ?df = Inr df'"
    and ks: "map fst df' = map fst ?df"
    and upd: "\<forall>i\<in>set [1..<22].
                map_of df' (column_name ''x'' i)
                  = Some (F64 (arr_div rnd (arr_sub rnd (the (map_of ?df (column_name ''x'' i))) (row ! 0)) ?s))
              \<and> map_of df' (column_name ''y'' i)
                  = Some (F64 (arr_div rnd (arr_sub rnd (the (map_of ?df (column_name ''y'' i))) (row ! 1)) ?s))"
    and keep: "\<forall>k. (\<forall>i\<in>set [1..<22]. k \<noteq> column_name ''x'' i \<and> k \<noteq> column_name ''y'' i)
                  \<longrightarrow> map_of df' k = map_of ?df k"
    by blast
  have cols: "\<forall>i\<in>{1..21}.
                map_of df' (column_name ''x'' i) = Some (F64 (arr_div rnd (arr_sub rnd (row ! (3 * (i - 1))) (row ! 0)) ?s))
              \<and> map_of df' (column_name ''y'' i) = Some (F64 (arr_div rnd (arr_sub rnd (row ! (3 * (i - 1) + 1)) (row ! 1)) ?s))
              \<and> map_of df' (column_name ''z'' i) = Some (row ! (3 * (i - 1) + 2))"
  proof
    fix i :: nat assume i: "i \<in> {1..21}"
    then have m: "i \<in> set [1..<22]" by auto
    note c = frame_landmark_columns [OF len i]
    have z: "map_of df' (column_name ''z'' i) = map_of ?df (column_name ''z'' i)"
      using keep by simp
    from upd m c z
    show "map_of df' (column_name ''x'' i) = Some (F64 (arr_div rnd (arr_sub rnd (row ! (3 * (i - 1))) (row ! 0)) ?s))
        \<and> map_of df' (column_name ''y'' i) = Some (F64 (arr_div rnd (arr_sub rnd (row ! (3 * (i - 1) + 1)) (row ! 1)) ?s))
        \<and> map_of df' (column_name ''z'' i) = Some (row ! (3 * (i - 1) + 2))"
      by simp
  qed
  have "map fst ?df = feature_names" using len by (simp add: feature_names_length)
  with start r ks cols show ?thesis by simp
qed

subsection \<open>The branches of the prediction endpoint\<close>

lemma predict_gesture_not_loaded:
  assumes "model env = None \<or> label_encoder env = None"
  shows "predict_gesture env r st
           = (HTTP_error Load_check 500 ''Model or encoder not loaded'', [], st)"
  using assms by (auto simp: predict_gesture_def)

lemma predict_gesture_bad_json:
  assumes "model env = Some clf" and "label_encoder env = Some enc"
      and "bind (request_json r) (\<lambda>data. data_get data ''landmarks'') = Inl e"
  shows "predict_gesture env r st
           = (HTTP_error Json_check 400 ''Invalid JSON input'',
              [Log_error (''Invalid JSON input: '' @ exc_str e)], st)"
  using assms by (simp add: predict_gesture_def)

lemma predict_gesture_falsy:
  assumes "model env = Some clf" and "label_encoder env = Some enc"
      and "request_json r = Inr data" and "data_get data ''landmarks'' = Inr landmarks"
      and "\<not> truthy landmarks"
  shows "predict_gesture env r st
           = (HTTP_error Count_check 400 ''Expected 63 landmark features'',
              [Log_error ''Invalid input length: expected 63 landmarks, got none''], st)"
  using assms by (simp add: predict_gesture_def bind_def)

lemma predict_gesture_wrong_length:
  assumes "model env = Some clf" and "label_encoder env = Some enc"
      and "request_json r = Inr data" and "data_get data ''landmarks'' = Inr landmarks"
      and "truthy landmarks" and "py_len landmarks = Inr n" and "n \<noteq> 63"
  shows "predict_gesture env r st
           = (HTTP_error Count_check 400 ''Expected 63 landmark features'',
              [Log_error (''Invalid input length: expected 63 landmarks, got '' @ str_nat n)], st)"
  using assms by (simp add: predict_gesture_def bind_def)

lemma predict_gesture_validated:
  assumes "model env = Some clf" and "label_encoder env = Some enc"
      and "request_json r = Inr data" and "data_get data ''landmarks'' = Inr landmarks"
      and "truthy landmarks" and "py_len landmarks = Inr 63"
  shows "predict_gesture env r st
           = (case infer env clf enc landmarks of
                Inr (label, dir, conf) \<Rightarrow>
                  (Returned \<lparr>gesture = label, direction = dir, confidence = conf,
                             timestamp = now_iso r\<rparr>,
                   [Log_info_prediction label dir conf],
                   st\<lparr>latency_sum := latency_sum st + (clock_end r - clock_start r),
                      prediction_count := prediction_count st + 1\<rparr>)
              | Inl e \<Rightarrow>
                  (HTTP_error Inference 500 (exc_str e),
                   [Log_error (''Prediction error: '' @ exc_str e)],
                   st\<lparr>error_count := error_count st + 1\<rparr>))"
  using assms by (simp add: predict_gesture_def bind_def)

lemma predict_gesture_reaches_inference:
  assumes "predict_gesture env r st = (out, logs, st')"
      and "is_success out \<or> is_inference_failure out"
  shows "model env \<noteq> None \<and> label_encoder env \<noteq> None
       \<and> (\<exists>kvs landmarks. request_json r = Inr (JObj kvs)
             \<and> data_get (JObj kvs) ''landmarks'' = Inr landmarks
             \<and> truthy landmarks \<and> py_len landmarks = Inr 63)"
proof -
  from assms have l: "model env \<noteq> None \<and> label_encoder env \<noteq> None"
    by (auto simp: predict_gesture_def split: if_splits)
  from assms l obtain data where d: "request_json r = Inr data"
    by (cases "request_json r") (auto simp: predict_gesture_def bind_def)
  from assms l d obtain kvs where k: "data = JObj kvs"
    by (cases data) (auto simp: predict_gesture_def bind_def)
  obtain landmarks where g: "data_get (JObj kvs) ''landmarks'' = Inr landmarks" by simp
  from assms l d k g have t: "truthy landmarks"
    by (auto simp: predict_gesture_def bind_def split: if_splits)
  from assms l d k g t have "py_len landmarks = Inr 63"
    by (cases "py_len landmarks") (auto simp: predict_gesture_def bind_def split: if_splits bool.splits)
  with l d k g t show ?thesis by blast
qed

subsection \<open>The counters over a run of calls\<close>

lemma predict_gesture_effect:
  assumes "predict_gesture env r st = (out, logs, st1)"
  shows "st1 = (if is_success out
                then st\<lparr>latency_sum := latency_sum st + latency r,
                        prediction_count := prediction_count st + 1\<rparr>
                else if is_inference_failure out then st\<lparr>error_count := error_count st + 1\<rparr>
                else st)"
  using assms
  by (auto simp: predict_gesture_def latency_def split: if_splits sum.splits bool.splits prod.splits)

lemma serve_length: "serve env reqs st = (outs, st') \<Longrightarrow> length outs = length reqs"
  by (induction reqs arbitrary: st outs st') (auto split: prod.splits)

lemma serve_counts:
  assumes "serve env reqs st = (outs, st')"
  shows "prediction_count st' = prediction_count st + int (length (filter is_success outs))
       \<and> error_count st' = error_count st + int (length (filter is_inference_failure outs))
       \<and> latency_sum st' = latency_sum st + sum_list (successful_latencies reqs outs)"
  using assms
proof (induction reqs arbitrary: st outs st')
  case Nil
  then show ?case by (simp add: successful_latencies_def)
next
  case (Cons r rs)
  obtain out logs st1 where step: "predict_gesture env r st = (out, logs, st1)"
    by (cases "predict_gesture env r st") auto
  obtain outs' st2 where rest: "serve env rs st1 = (outs', st2)"
    by (cases "serve env rs st1") auto
  from Cons.prems step rest have eqs: "outs = out # outs'" "st' = st2" by auto
  note ih = Cons.IH [OF rest]
  note eff = predict_gesture_effect [OF step]
  show ?case
  proof (cases "is_success out")
    case True
    then have "\<not> is_inference_failure out" by (cases out) auto
    with True ih eff eqs show ?thesis by (simp add: successful_latencies_def)
  next
    case False
    with ih eff eqs show ?thesis by (simp add: successful_latencies_def)
  qed
qed

subsection \<open>Numeric rows and the sample calls\<close>

lemma those_length: "those xs = Some ys \<Longrightarrow> length ys = length xs"
  by (induction xs arbitrary: ys) (auto split: option.splits)

lemma numeric_row_length:
  assumes "numeric_row rnd (JArr xs) = Some row"
  shows "length row = length xs"
proof (cases "those (map int64_of xs)")
  case (Some ns)
  with assms those_length [of "map int64_of xs" ns] show ?thesis by auto
next
  case None
  with assms obtain fs where "those (map (float64_of rnd) xs) = Some fs" "row = map F64 fs"
    by (auto split: option.splits)
  with those_length [of "map (float64_of rnd) xs" fs] show ?thesis by simp
qed

lemma those_floats: "those (map (float64_of rnd \<circ> JFloat) row) = Some row"
  by (induction row) auto

lemma those_int64_floats: "row \<noteq> [] \<Longrightarrow> those (map (int64_of \<circ> JFloat) row) = None"
  by (cases row) auto

lemma numeric_row_floats: "numeric_row rnd (JArr (map JFloat row)) = Some (map F64 row)"
  by (cases "row = []") (simp_all add: those_floats those_int64_floats)

lemma build_features_numeric:
  assumes "numeric_row (rounding env) landmarks = Some row" and "length row = 63"
  shows "\<exists>features. build_features env landmarks = Inr features
          \<and> normalize_landmarks (rounding env) (zip feature_names row) = Inr features"
  using assms normalize_landmarks_frame [of row "rounding env"]
  by (auto simp: build_features_def DataFrame_def bind_def feature_names_length)

lemma build_features_floats:
  assumes "length row = 63"
  shows "\<exists>features. build_features env (JArr (map JFloat row)) = Inr features
          \<and> normalize_landmarks (rounding env) (zip feature_names (map F64 row)) = Inr features"
  using build_features_numeric [OF numeric_row_floats, of row env] assms by simp

lemma classify_constant:
  "classify (constant_classifier k ps) enc features
     = bind (np_max ps) (\<lambda>c. bind (inverse_transform enc k) (\<lambda>g.
         Inr (g, map_of GESTURE_MAPPING g, c)))"
  by (simp add: classify_def constant_classifier_def bind_def)

lemma open_pose_length: "length open_pose = 63"
  by (simp add: open_pose_def open_pose_coordinates_def)

lemma zero_pose_length: "length zero_pose = 63"
  by (simp add: zero_pose_def)

lemma sample_success:
  "predict_gesture (service (constant_classifier 1 [Finite (1/4), Finite (3/4)]))
       (call (landmarks_body open_pose) secs) st
     = (Returned \<lparr>gesture = ''like'', direction = Some ''up'', confidence = Finite (3/4),
                  timestamp = ''2025-01-01T00:00:00''\<rparr>,
        [Log_info_prediction ''like'' (Some ''up'') (Finite (3/4))],
        st\<lparr>latency_sum := latency_sum st + secs,
           prediction_count := prediction_count st + 1\<rparr>)"
proof -
  let ?clf = "constant_classifier 1 [Finite (1/4), Finite (3/4)]"
  let ?lm = "JArr (map JFloat open_pose)"
  obtain features where f: "build_features (service ?clf) ?lm = Inr features"
    using build_features_floats [OF open_pose_length] by blast
  have i: "infer (service ?clf) ?clf gesture_decoder ?lm
             = Inr (''like'', Some ''up'', Finite (3/4))"
    by (simp add: infer_def f bind_def classify_constant inverse_transform_def
          gesture_decoder_def GESTURE_MAPPING_def)
  have v: "predict_gesture (service ?clf) (call (landmarks_body open_pose) secs) st
             = (case infer (service ?clf) ?clf gesture_decoder ?lm of
                Inr (label, dir, conf) \<Rightarrow>
                  (Returned \<lparr>gesture = label, direction = dir, confidence = conf,
                             timestamp = now_iso (call (landmarks_body open_pose) secs)\<rparr>,
                   [Log_info_prediction label dir conf],
                   st\<lparr>latency_sum := latency_sum st
                          + (clock_end (call (landmarks_body open_pose) secs)
                             - clock_start (call (landmarks_body open_pose) secs)),
                      prediction_count := prediction_count st + 1\<rparr>)
              | Inl e \<Rightarrow>
                  (HTTP_error Inference 500 (exc_str e),
                   [Log_error (''Prediction error: '' @ exc_str e)],
                   st\<lparr>error_count := error_count st + 1\<rparr>))"
    by (rule predict_gesture_validated [where data = "JObj [(''landmarks'', ?lm)]"])
       (simp_all add: service_def call_def landmarks_body_def open_pose_length open_pose_def
          open_pose_coordinates_def)
  show ?thesis unfolding v i by (simp add: call_def)
qed

lemma service_loaded:
  "model (service clf) = Some clf" "label_encoder (service clf) = Some gesture_decoder"
  by (simp_all add: service_def)

lemma str_nat_50: "str_nat 50 = ''50''"
  by code_simp

lemma sample_wrong_count:
  "predict_gesture (service clf) (call (landmarks_body (replicate 50 (Finite (1/2)))) secs) st
     = (HTTP_error Count_check 400 ''Expected 63 landmark features'',
        [Log_error ''Invalid input length: expected 63 landmarks, got 50''], st)"
proof -
  have "predict_gesture (service clf) (call (landmarks_body (replicate 50 (Finite (1/2)))) secs) st
     = (HTTP_error Count_check 400 ''Expected 63 landmark features'',
        [Log_error (''Invalid input length: expected 63 landmarks, got '' @ str_nat 50)], st)"
    by (rule predict_gesture_wrong_length
          [where data = "JObj [(''landmarks'', JArr (map JFloat (replicate 50 (Finite (1/2)))))]"
             and landmarks = "JArr (map JFloat (replicate 50 (Finite (1/2))))"])
       (simp_all add: service_def call_def landmarks_body_def)
  then show ?thesis by (simp add: str_nat_50)
qed

lemma sample_bad_json:
  "predict_gesture (service clf)
       (call (Inl (PyExc ''JSONDecodeError'' ''Expecting value: line 1 column 1 (char 0)'')) secs) st
     = (HTTP_error Json_check 400 ''Invalid JSON input'',
        [Log_error ''Invalid JSON input: Expecting value: line 1 column 1 (char 0)''], st)"
  by (simp add: predict_gesture_def service_def call_def bind_def)

lemma sample_not_object:
  "predict_gesture (service clf) (call (Inr (JArr [])) secs) st
     = (HTTP_error Json_check 400 ''Invalid JSON input'',
        [Log_error (''Invalid JSON input: '' @ quoted ''list'' @ '' object has no attribute ''
                      @ quoted ''get'')], st)"
  by (simp add: predict_gesture_def service_def call_def bind_def)

lemma sample_string_landmarks:
  "predict_gesture (service clf)
       (call (Inr (JObj [(''landmarks'', JStr (replicate 63 CHR ''a''))])) secs) st
     = (HTTP_error Inference 500 ''Shape of passed values is (1, 1), indices imply (1, 63)'',
        [Log_error ''Prediction error: Shape of passed values is (1, 1), indices imply (1, 63)''],
        st\<lparr>error_count := error_count st + 1\<rparr>)"
proof -
  let ?lm = "JStr (replicate 63 CHR ''a'')"
  have i: "infer (service clf) clf gesture_decoder ?lm
             = Inl (PyExc ''ValueError'' ''Shape of passed values is (1, 1), indices imply (1, 63)'')"
    by (simp add: infer_def build_features_def service_def bind_def)
  have "predict_gesture (service clf) (call (Inr (JObj [(''landmarks'', ?lm)])) secs) st
     = (case infer (service clf) clf gesture_decoder ?lm of
                Inr (label, dir, conf) \<Rightarrow>
                  (Returned \<lparr>gesture = label, direction = dir, confidence = conf,
                             timestamp = now_iso (call (Inr (JObj [(''landmarks'', ?lm)])) secs)\<rparr>,
                   [Log_info_prediction label dir conf],
                   st\<lparr>latency_sum := latency_sum st
                          + (clock_end (call (Inr (JObj [(''landmarks'', ?lm)])) secs)
                             - clock_start (call (Inr (JObj [(''landmarks'', ?lm)])) secs)),
                      prediction_count := prediction_count st + 1\<rparr>)
              | Inl e \<Rightarrow>
                  (HTTP_error Inference 500 (exc_str e),
                   [Log_error (''Prediction error: '' @ exc_str e)],
                   st\<lparr>error_count := error_count st + 1\<rparr>))"
    by (rule predict_gesture_validated [where data = "JObj [(''landmarks'', ?lm)]"])
       (simp_all add: service_def call_def)
  then show ?thesis unfolding i by simp
qed

lemma validation_failure_not_counted:
  "is_validation_failure out \<Longrightarrow> \<not> is_success out \<and> \<not> is_inference_failure out"
  by (cases out) (auto elim: is_validation_failure.elims)

lemma sample_not_loaded:
  "predict_gesture not_loaded r st
     = (HTTP_error Load_check 500 ''Model or encoder not loaded'', [], st)"
  by (rule predict_gesture_not_loaded) (simp add: not_loaded_def)

lemma fsub_self:
  "rnd 0 = Finite 0 \<Longrightarrow> fsub rnd x x = (if is_finite x then Finite 0 else NaN)"
  by (cases x) simp_all

lemma arr_sub_self:
  "rnd 0 = Finite 0 \<Longrightarrow>
     arr_sub rnd c c = (case c of I64 n \<Rightarrow> I64 0
                        | F64 x \<Rightarrow> F64 (if is_finite x then Finite 0 else NaN))"
  by (cases c) (simp_all add: fsub_self)

lemma scale_of_coincident:
  assumes "rnd 0 = Finite 0" and "cell_finite c0" and "cell_finite c1"
  shows "scale_of rnd c0 c1 c0 c1 = Finite 0"
  using assms
  by (cases c0; cases c1)
     (simp_all add: scale_of_def arr_sqrt_def fsub_self)

lemma coincident_ratio_nan:
  assumes "rnd 0 = Finite 0"
  shows "arr_div rnd (arr_sub rnd c0 c0) (scale_of rnd c0 c1 c0 c1) = NaN"
proof (cases "cell_finite c0")
  case False
  then obtain x where "c0 = F64 x" "\<not> is_finite x" by (cases c0) auto
  then show ?thesis using assms by (simp add: arr_div_def fsub_self)
next
  case True
  then have n: "to_float64 rnd (arr_sub rnd c0 c0) = Finite 0"
    using assms by (cases c0) (simp_all add: fsub_self)
  show ?thesis
  proof (cases "cell_finite c1")
    case f1: True
    from scale_of_coincident [of rnd, OF assms True f1] n show ?thesis by (simp add: arr_div_def)
  next
    case False
    then obtain y where y: "c1 = F64 y" "\<not> is_finite y" by (cases c1) auto
    have "scale_of rnd c0 c1 c0 c1 = NaN"
      using assms True y
      by (cases c0) (simp_all add: scale_of_def arr_sqrt_def fsub_self)
    with n show ?thesis by (simp add: arr_div_def)
  qed
qed

lemma coincident_frame_not_finite:
  assumes "rnd 0 = Finite 0" and "length row = 63"
      and "row ! 36 = row ! 0" and "row ! 37 = row ! 1"
      and "normalize_landmarks rnd (zip feature_names row) = Inr features"
  shows "getitem features ''x1'' = Inr (F64 NaN)"
    and "\<not> list_all cell_finite (map snd features)"
proof -
  have "(1::nat) \<in> {1..21}" by simp
  with normalize_landmarks_frame [OF assms(2), of rnd] assms(5)
  have "map_of features (column_name ''x'' 1)
          = Some (F64 (arr_div rnd (arr_sub rnd (row ! (3 * (1 - 1))) (row ! 0))
               (scale_of rnd (row ! 0) (row ! 1) (row ! 36) (row ! 37))))"
    by auto
  then have m: "map_of features ''x1'' = Some (F64 NaN)"
    unfolding assms(3,4) anchor_names
    using coincident_ratio_nan [of rnd "row ! 0" "row ! 1", OF assms(1)] by simp
  then show "getitem features ''x1'' = Inr (F64 NaN)" by (simp add: getitem_def)
  from m have "(''x1'', F64 NaN) \<in> set features" by (rule map_of_SomeD)
  then have "\<exists>c\<in>set features. \<not> cell_finite (snd c)" by force
  then show "\<not> list_all cell_finite (map snd features)" by (simp add: list_all_iff)
qed

lemma zero_pose_cells:
  "map F64 zero_pose ! 36 = map F64 zero_pose ! 0" "map F64 zero_pose ! 37 = map F64 zero_pose ! 1"
  by (simp_all add: zero_pose_def)

lemma sample_degenerate_refused:
  "infer (service finite_only_classifier) finite_only_classifier gesture_decoder
       (JArr (map JFloat zero_pose))
     = Inl (PyExc ''ValueError'' ''Input X contains NaN.'')"
proof -
  obtain features where
    f: "build_features (service finite_only_classifier) (JArr (map JFloat zero_pose)) = Inr features"
    and n: "normalize_landmarks (rounding (service finite_only_classifier))
              (zip feature_names (map F64 zero_pose)) = Inr features"
    using build_features_floats [OF zero_pose_length] by blast
  have r: "rounding (service finite_only_classifier) 0 = Finite 0" by (simp add: service_def)
  have l: "length (map F64 zero_pose) = 63" by (simp add: zero_pose_length)
  from coincident_frame_not_finite(2) [of "rounding (service finite_only_classifier)", OF r l zero_pose_cells n]
  show ?thesis unfolding infer_def f
    by (simp add: bind_def classify_def finite_only_classifier_def)
qed

lemma data_get_not_object:
  assumes "\<forall>kvs. data \<noteq> JObj kvs"
  shows "\<exists>e. data_get data key = Inl e"
  using assms by (cases data) auto

lemma numeric_row_Some:
  assumes "numeric_row rnd landmarks = Some row"
  shows "\<exists>xs. landmarks = JArr xs \<and> length xs = length row"
proof (cases landmarks)
  case (JArr xs)
  with assms numeric_row_length [of rnd xs row] show ?thesis by simp
qed (use assms in simp_all)

lemma probability_row_reals:
  assumes "probability_row ps"
  shows "\<exists>q qs. ps = Finite q # map Finite qs \<and> (\<forall>x\<in>set (q # qs). 0 \<le> x \<and> x \<le> 1)"
proof -
  have all: "list_all (\<lambda>p. case p of Finite q \<Rightarrow> 0 \<le> q \<and> q \<le> 1 | _ \<Rightarrow> False) ps \<Longrightarrow>
        \<exists>qs. ps = map Finite qs \<and> (\<forall>x\<in>set qs. 0 \<le> x \<and> x \<le> 1)"
  proof (induction ps)
    case Nil
    then show ?case by simp
  next
    case (Cons p ps)
    then obtain qs where qs: "ps = map Finite qs" "\<forall>x\<in>set qs. 0 \<le> x \<and> x \<le> 1" by auto
    from Cons.prems obtain q where q: "p = Finite q" "0 \<le> q" "q \<le> 1"
      by (cases p) auto
    have "p # ps = map Finite (q # qs) \<and> (\<forall>x\<in>set (q # qs). 0 \<le> x \<and> x \<le> 1)"
      using q qs by simp
    then show ?case by (rule exI [of _ "q # qs"])
  qed
  from assms have "ps \<noteq> []"
    and "list_all (\<lambda>p. case p of Finite q \<Rightarrow> 0 \<le> q \<and> q \<le> 1 | _ \<Rightarrow> False) ps"
    by (simp_all add: probability_row_def)
  with all obtain qs where qs: "ps = map Finite qs" "\<forall>x\<in>set qs. 0 \<le> x \<and> x \<le> 1" "qs \<noteq> []"
    by auto
  then obtain q qs' where "qs = q # qs'" by (cases qs) auto
  with qs show ?thesis by auto
qed

lemma foldl_fmax_reals: "foldl fmax (Finite a) (map Finite qs) = Finite (foldl max a qs)"
  by (induction qs arbitrary: a) auto

lemma foldl_max_bounds:
  fixes a :: real
  shows "foldl max a qs \<in> set (a # qs) \<and> (\<forall>x\<in>set (a # qs). x \<le> foldl max a qs)"
proof (induction qs arbitrary: a)
  case Nil
  then show ?case by simp
next
  case (Cons q qs)
  from Cons.IH [of "max a q"]
  have m: "foldl max (max a q) qs \<in> set (max a q # qs)"
    and u: "\<forall>x\<in>set (max a q # qs). x \<le> foldl max (max a q) qs" by simp_all
  have "max a q = a \<or> max a q = q" by (simp add: max_def)
  with m have "foldl max (max a q) qs \<in> set (a # q # qs)" by auto
  moreover from u have "a \<le> foldl max (max a q) qs" "q \<le> foldl max (max a q) qs"
    by (simp_all add: max.coboundedI1 max.coboundedI2)
  ultimately show ?case using u by simp
qed

lemma np_max_probability_row:
  assumes "probability_row ps"
  shows "\<exists>c. np_max ps = Inr (Finite c) \<and> Finite c \<in> set ps
           \<and> (\<forall>q. Finite q \<in> set ps \<longrightarrow> q \<le> c) \<and> 0 \<le> c \<and> c \<le> 1"
proof -
  from probability_row_reals [OF assms] obtain q qs where
    ps: "ps = Finite q # map Finite qs" and b: "\<forall>x\<in>set (q # qs). 0 \<le> x \<and> x \<le> 1" by blast
  let ?c = "foldl max q qs"
  from foldl_max_bounds [of q qs]
  have m: "?c \<in> set (q # qs)" and u: "\<forall>x\<in>set (q # qs). x \<le> ?c" by simp_all
  have 1: "np_max ps = Inr (Finite ?c)" by (simp add: ps foldl_fmax_reals)
  have 2: "Finite ?c \<in> set ps" using m by (auto simp: ps)
  have 3: "\<forall>x. Finite x \<in> set ps \<longrightarrow> x \<le> ?c" using u by (auto simp: ps)
  have 4: "0 \<le> ?c \<and> ?c \<le> 1" using m b by blast
  from 1 2 3 4 show ?thesis by blast
qed

lemma constant_classifier_call:
  assumes "length row = 63" and "np_max ps = Inr c"
      and "inverse_transform gesture_decoder k = Inr g"
  shows "predict_gesture (service (constant_classifier k ps)) (call (landmarks_body row) secs) st
     = (Returned \<lparr>gesture = g, direction = map_of GESTURE_MAPPING g, confidence = c,
                  timestamp = ''2025-01-01T00:00:00''\<rparr>,
        [Log_info_prediction g (map_of GESTURE_MAPPING g) c],
        st\<lparr>latency_sum := latency_sum st + secs,
           prediction_count := prediction_count st + 1\<rparr>)"
proof -
  let ?clf = "constant_classifier k ps"
  let ?lm = "JArr (map JFloat row)"
  let ?r = "call (landmarks_body row) secs"
  obtain features where f: "build_features (service ?clf) ?lm = Inr features"
    using build_features_floats [OF assms(1)] by blast
  have i: "infer (service ?clf) ?clf gesture_decoder ?lm = Inr (g, map_of GESTURE_MAPPING g, c)"
    unfolding infer_def f by (simp add: bind_def classify_constant assms)
  have ne: "row \<noteq> []" using assms(1) by auto
  have v: "predict_gesture (service ?clf) ?r st
             = (case infer (service ?clf) ?clf gesture_decoder ?lm of
                Inr (label, dir, conf) \<Rightarrow>
                  (Returned \<lparr>gesture = label, direction = dir, confidence = conf,
                             timestamp = now_iso ?r\<rparr>,
                   [Log_info_prediction label dir conf],
                   st\<lparr>latency_sum := latency_sum st + (clock_end ?r - clock_start ?r),
                      prediction_count := prediction_count st + 1\<rparr>)
              | Inl e \<Rightarrow>
                  (HTTP_error Inference 500 (exc_str e),
                   [Log_error (''Prediction error: '' @ exc_str e)],
                   st\<lparr>error_count := error_count st + 1\<rparr>))"
    by (rule predict_gesture_validated [where data = "JObj [(''landmarks'', ?lm)]"])
       (simp_all add: service_def call_def landmarks_body_def assms(1) ne)
  show ?thesis unfolding v i by (simp add: call_def)
qed










section \<open>The claims\<close>

text \<open>
  C1. For a classify call whose 63 landmarks are numbers with landmark 1 and landmark 13
  at the same (x, y), the scale factor is 0 when that position is finite, and the call
  ends with a 500 response and one more error counted, never with a returned prediction.
  Nothing in \<open>normalize_landmarks\<close> or \<open>predict_gesture\<close> tests the scale factor: the
  normalised frame holds NaN in column x1, and the exception is the one of the
  classifier, which fails on non-finite input.
\<close>

theorem degenerate_pose_raises:
  assumes "model env = Some clf" and "label_encoder env = Some enc"
      and "refuses_non_finite clf"
      and "rounding env 0 = Finite 0"
      and "request_json r = Inr data" and "data_get data ''landmarks'' = Inr landmarks"
      and "numeric_row (rounding env) landmarks = Some row" and "length row = 63"
      and "row ! 36 = row ! 0" and "row ! 37 = row ! 1"
  shows "(cell_finite (row ! 0) \<and> cell_finite (row ! 1)
            \<longrightarrow> scale_of (rounding env) (row ! 0) (row ! 1) (row ! 36) (row ! 37) = Finite 0)
       \<and> (\<exists>features. normalize_landmarks (rounding env) (zip feature_names row) = Inr features
             \<and> getitem features ''x1'' = Inr (F64 NaN))
       \<and> (\<exists>e. predict_gesture env r st
                  = (HTTP_error Inference 500 (exc_str e),
                     [Log_error (''Prediction error: '' @ exc_str e)],
                     st\<lparr>error_count := error_count st + 1\<rparr>))
       \<and> \<not> is_success (fst (predict_gesture env r st))"
proof -
  have s0: "cell_finite (row ! 0) \<and> cell_finite (row ! 1)
            \<longrightarrow> scale_of (rounding env) (row ! 0) (row ! 1) (row ! 36) (row ! 37) = Finite 0"
    unfolding assms(9,10) using scale_of_coincident [of "rounding env", OF assms(4)] by blast
  from numeric_row_Some [OF assms(7)] assms(8) obtain xs where
    xs: "landmarks = JArr xs" "length xs = 63" by auto
  have t: "truthy landmarks" and n: "py_len landmarks = Inr 63" using xs by auto
  from build_features_numeric [OF assms(7,8)] obtain features where
    b: "build_features env landmarks = Inr features"
    and nl: "normalize_landmarks (rounding env) (zip feature_names row) = Inr features" by blast
  note nan = coincident_frame_not_finite [of "rounding env", OF assms(4,8,9,10) nl]
  from assms(3) nan(2) obtain e where e: "predict clf features = Inl e"
    unfolding refuses_non_finite_def by blast
  then have c: "classify clf enc features = Inl e" by (simp add: classify_def bind_def)
  have p: "predict_gesture env r st
                  = (HTTP_error Inference 500 (exc_str e),
                     [Log_error (''Prediction error: '' @ exc_str e)],
                     st\<lparr>error_count := error_count st + 1\<rparr>)"
    unfolding predict_gesture_validated [OF assms(1,2,5,6) t n] infer_def b
    by (simp add: bind_def c)
  then have ns: "\<not> is_success (fst (predict_gesture env r st))" by simp
  from s0 nl nan(1) p ns show ?thesis by blast
qed

theorem degenerate_pose_raises_witness:
  "predict_gesture (service finite_only_classifier) (call (landmarks_body zero_pose) 1)
       initial_metrics
     = (HTTP_error Inference 500 ''Input X contains NaN.'',
        [Log_error ''Prediction error: Input X contains NaN.''],
        \<lparr>prediction_count = 0, error_count = 1, latency_sum = 0\<rparr>)
   \<and> scale_of Finite (F64 (Finite 0)) (F64 (Finite 0)) (F64 (Finite 0)) (F64 (Finite 0))
       = Finite 0
   \<and> predict_gesture (service finite_only_classifier)
        (call (Inr (JObj [(''landmarks'', JArr (replicate 63 (JInt 0)))])) 1) initial_metrics
     = (HTTP_error Inference 500 ''Input X contains NaN.'',
        [Log_error ''Prediction error: Input X contains NaN.''],
        \<lparr>prediction_count = 0, error_count = 1, latency_sum = 0\<rparr>)"
proof -
  let ?env = "service finite_only_classifier"
  have ref: "refuses_non_finite finite_only_classifier"
    by (simp add: refuses_non_finite_def finite_only_classifier_def)
  have rd: "rounding ?env 0 = Finite 0" and rf: "rounding ?env = Finite"
    by (simp_all add: service_def)
  have only: "\<And>f. predict finite_only_classifier f = Inl e \<Longrightarrow>
                e = PyExc ''ValueError'' ''Input X contains NaN.''" for e
    by (simp add: finite_only_classifier_def split: if_splits)
  have cases: "\<And>r. (\<exists>e. predict_gesture ?env r initial_metrics
                  = (HTTP_error Inference 500 (exc_str e),
                     [Log_error (''Prediction error: '' @ exc_str e)],
                     initial_metrics\<lparr>error_count := error_count initial_metrics + 1\<rparr>))
          \<Longrightarrow> is_inference_failure (fst (predict_gesture ?env r initial_metrics))"
    by auto
  \<comment> \<open>a row of floats\<close>
  let ?lm = "JArr (map JFloat zero_pose)"
  let ?r = "call (landmarks_body zero_pose) 1"
  have j: "request_json ?r = Inr (JObj [(''landmarks'', ?lm)])"
    by (simp add: call_def landmarks_body_def)
  have g: "data_get (JObj [(''landmarks'', ?lm)]) ''landmarks'' = Inr ?lm" by simp
  have l: "length (map F64 zero_pose) = 63" by (simp add: zero_pose_length)
  note a = degenerate_pose_raises
             [OF service_loaded [of finite_only_classifier] ref rd j g numeric_row_floats l
                 zero_pose_cells, where st = initial_metrics]
  have z: "map F64 zero_pose ! 0 = F64 (Finite 0)" "map F64 zero_pose ! 1 = F64 (Finite 0)"
          "map F64 zero_pose ! 36 = F64 (Finite 0)" "map F64 zero_pose ! 37 = F64 (Finite 0)"
    by (simp_all add: zero_pose_def)
  from a have sc: "scale_of Finite (F64 (Finite 0)) (F64 (Finite 0)) (F64 (Finite 0)) (F64 (Finite 0))
       = Finite 0"
    unfolding z rf by simp
  from a obtain e where
    pe: "predict_gesture ?env ?r initial_metrics
                  = (HTTP_error Inference 500 (exc_str e),
                     [Log_error (''Prediction error: '' @ exc_str e)],
                     initial_metrics\<lparr>error_count := error_count initial_metrics + 1\<rparr>)"
    by blast
  have ie: "infer ?env finite_only_classifier gesture_decoder ?lm
              = Inl (PyExc ''ValueError'' ''Input X contains NaN.'')"
    by (rule sample_degenerate_refused)
  have t: "truthy ?lm" and n: "py_len ?lm = Inr 63"
    by (simp_all add: zero_pose_def)
  from pe predict_gesture_validated
         [OF service_loaded [of finite_only_classifier] j g t n, of initial_metrics] ie
  have first: "predict_gesture ?env ?r initial_metrics
     = (HTTP_error Inference 500 ''Input X contains NaN.'',
        [Log_error ''Prediction error: Input X contains NaN.''],
        \<lparr>prediction_count = 0, error_count = 1, latency_sum = 0\<rparr>)"
    by (simp add: initial_metrics_def)
  \<comment> \<open>a row of integers\<close>
  let ?li = "JArr (replicate 63 (JInt 0))"
  let ?ri = "call (Inr (JObj [(''landmarks'', ?li)])) 1"
  have ji: "request_json ?ri = Inr (JObj [(''landmarks'', ?li)])" by (simp add: call_def)
  have gi: "data_get (JObj [(''landmarks'', ?li)]) ''landmarks'' = Inr ?li" by simp
  have ti: "those (replicate n (Some (0 :: 64 word))) = Some (replicate n 0)" for n
    by (induction n) simp_all
  have ni: "numeric_row (rounding ?env) ?li = Some (replicate 63 (I64 0))"
    by (simp add: ti)
  have li: "length (replicate 63 (I64 0)) = 63" by simp
  have ci: "replicate 63 (I64 0) ! 36 = replicate 63 (I64 0) ! 0"
           "replicate 63 (I64 0) ! 37 = replicate 63 (I64 0) ! 1" by simp_all
  from degenerate_pose_raises
         [OF service_loaded [of finite_only_classifier] ref rd ji gi ni li ci,
          where st = initial_metrics]
  obtain e' features where
    nf: "normalize_landmarks (rounding ?env) (zip feature_names (replicate 63 (I64 0)))
           = Inr features"
    and x1: "getitem features ''x1'' = Inr (F64 NaN)"
    and pi: "predict_gesture ?env ?ri initial_metrics
                  = (HTTP_error Inference 500 (exc_str e'),
                     [Log_error (''Prediction error: '' @ exc_str e')],
                     initial_metrics\<lparr>error_count := error_count initial_metrics + 1\<rparr>)"
    by blast
  from build_features_numeric [OF ni li] nf
  have bi: "build_features ?env ?li = Inr features" by auto
  from x1 have "map_of features ''x1'' = Some (F64 NaN)"
    by (simp add: getitem_def split: option.splits)
  then have "(''x1'', F64 NaN) \<in> set features" by (rule map_of_SomeD)
  then have "\<exists>c\<in>set features. \<not> cell_finite (snd c)" by force
  then have "\<not> list_all cell_finite (map snd features)" by (simp add: list_all_iff)
  then have ii: "infer ?env finite_only_classifier gesture_decoder ?li
              = Inl (PyExc ''ValueError'' ''Input X contains NaN.'')"
    unfolding infer_def bi by (simp add: bind_def classify_def finite_only_classifier_def)
  have tt: "truthy ?li" and nn: "py_len ?li = Inr 63" by simp_all
  from pi predict_gesture_validated
         [OF service_loaded [of finite_only_classifier] ji gi tt nn, of initial_metrics] ii
  have second: "predict_gesture ?env ?ri initial_metrics
     = (HTTP_error Inference 500 ''Input X contains NaN.'',
        [Log_error ''Prediction error: Input X contains NaN.''],
        \<lparr>prediction_count = 0, error_count = 1, latency_sum = 0\<rparr>)"
    by (simp add: initial_metrics_def)
  from first sc second show ?thesis by simp
qed



text \<open>
  C3. After any run of classify calls from the start of the process, the metrics report
  gives as prediction count the number N of calls that returned a prediction, as error
  count the number M of calls that failed inside the \<open>try\<close> block (after validation), as
  error rate M / max(N, 1), and as average latency the sum of the latencies of the N
  successful calls divided by N, or 0 when N = 0. Calls rejected by validation count
  nowhere.
\<close>

theorem metrics_after_calls:
  assumes "serve env reqs initial_metrics = (outs, st)"
  shows "reported_prediction_count (model_metrics (get_metrics t0 t txt st))
           = int (length (filter is_success outs))
       \<and> reported_error_count (model_metrics (get_metrics t0 t txt st))
           = int (length (filter is_inference_failure outs))
       \<and> error_rate (model_metrics (get_metrics t0 t txt st))
           = real (length (filter is_inference_failure outs))
               / real (max (length (filter is_success outs)) 1)
       \<and> average_latency (model_metrics (get_metrics t0 t txt st))
           = (if length (filter is_success outs) > 0
              then sum_list (successful_latencies reqs outs)
                     / real (length (filter is_success outs))
              else 0)"
proof -
  from serve_counts [OF assms]
  have pc: "prediction_count st = int (length (filter is_success outs))"
    and ec: "error_count st = int (length (filter is_inference_failure outs))"
    and ls: "latency_sum st = sum_list (successful_latencies reqs outs)"
    by (simp_all add: initial_metrics_def)
  have mx: "real_of_int (max (int (length (filter is_success outs))) 1)
              = real (max (length (filter is_success outs)) 1)"
    by (simp add: max_def)
  show ?thesis
    by (simp add: get_metrics_def Let_def pc ec ls mx)
qed

theorem metrics_after_calls_witness:
  "serve (service (constant_classifier 1 [Finite (1/4), Finite (3/4)]))
      [call (landmarks_body open_pose) (1/2),
       call (landmarks_body (replicate 50 (Finite (1/2)))) 1,
       call (Inr (JObj [(''landmarks'', JStr (replicate 63 CHR ''a''))])) 1,
       call (landmarks_body open_pose) (3/2)] initial_metrics
     = ([Returned \<lparr>gesture = ''like'', direction = Some ''up'', confidence = Finite (3/4),
                    timestamp = ''2025-01-01T00:00:00''\<rparr>,
         HTTP_error Count_check 400 ''Expected 63 landmark features'',
         HTTP_error Inference 500 ''Shape of passed values is (1, 1), indices imply (1, 63)'',
         Returned \<lparr>gesture = ''like'', direction = Some ''up'', confidence = Finite (3/4),
                    timestamp = ''2025-01-01T00:00:00''\<rparr>],
        \<lparr>prediction_count = 2, error_count = 1, latency_sum = 2\<rparr>)
   \<and> reported_prediction_count (model_metrics (get_metrics 0 10 []
        \<lparr>prediction_count = 2, error_count = 1, latency_sum = 2\<rparr>)) = 2
   \<and> reported_error_count (model_metrics (get_metrics 0 10 []
        \<lparr>prediction_count = 2, error_count = 1, latency_sum = 2\<rparr>)) = 1
   \<and> error_rate (model_metrics (get_metrics 0 10 []
        \<lparr>prediction_count = 2, error_count = 1, latency_sum = 2\<rparr>)) = 1 / 2
   \<and> average_latency (model_metrics (get_metrics 0 10 []
        \<lparr>prediction_count = 2, error_count = 1, latency_sum = 2\<rparr>)) = 1"
  (is "?run \<and> ?rest")
proof -
  have run: ?run
    by (simp add: sample_success sample_wrong_count sample_string_landmarks initial_metrics_def)
  from metrics_after_calls [OF run, of 0 10 "[]"] run
  show ?thesis by (simp add: successful_latencies_def latency_def call_def)
qed

text \<open>
  C4, as the code has it. With the model loaded, a landmarks value that has a length other
  than 63 ends the call with a 400 response whose detail is exactly
  \<open>Expected 63 landmark features\<close>: the detail states the expected count only. The count
  found (or \<open>none\<close> for an empty value) goes to the error log. At 50 landmarks the detail
  does not contain \<open>50\<close>.
\<close>

theorem wrong_count_detail_and_log:
  assumes "model env = Some clf" and "label_encoder env = Some enc"
      and "request_json r = Inr data" and "data_get data ''landmarks'' = Inr landmarks"
      and "py_len landmarks = Inr n" and "n \<noteq> 63"
  shows "predict_gesture env r st
           = (HTTP_error Count_check 400 ''Expected 63 landmark features'',
              [Log_error (''Invalid input length: expected 63 landmarks, got ''
                 @ (if truthy landmarks then str_nat n else ''none''))],
              st)"
proof (cases "truthy landmarks")
  case True
  from predict_gesture_wrong_length [OF assms(1-4) True assms(5,6)] True show ?thesis by simp
next
  case False
  from predict_gesture_falsy [OF assms(1-4) False] False show ?thesis by simp
qed

theorem wrong_count_detail_and_log_witness:
  "predict_gesture (service finite_only_classifier)
       (call (landmarks_body (replicate 50 (Finite (1/2)))) 1) initial_metrics
     = (HTTP_error Count_check 400 ''Expected 63 landmark features'',
        [Log_error ''Invalid input length: expected 63 landmarks, got 50''], initial_metrics)"
  using wrong_count_detail_and_log
    [of "service finite_only_classifier" finite_only_classifier gesture_decoder
        "call (landmarks_body (replicate 50 (Finite (1/2)))) 1"
        "JObj [(''landmarks'', JArr (map JFloat (replicate 50 (Finite (1/2)))))]"
        "JArr (map JFloat (replicate 50 (Finite (1/2))))" 50 initial_metrics]
  by (simp add: service_def call_def landmarks_body_def str_nat_50)

theorem wrong_count_detail_counterexample:
  "fst (predict_gesture (service finite_only_classifier)
         (call (landmarks_body (replicate 50 (Finite (1/2)))) 1) initial_metrics)
     = HTTP_error Count_check 400 ''Expected 63 landmark features''
   \<and> py_len (JArr (map JFloat (replicate 50 (Finite (1/2))))) = Inr 50
   \<and> contains (str_nat 63) ''Expected 63 landmark features''
   \<and> \<not> contains (str_nat 50) ''Expected 63 landmark features''"
proof -
  have "str_nat 63 = ''63''" by code_simp
  then show ?thesis by (simp add: sample_wrong_count str_nat_50)
qed

text \<open>
  C5, as the code has it. The checks of a call run in this order and the first that fails
  decides how the call ends. Model or encoder not loaded: the 500 response
  \<open>Model or encoder not loaded\<close>, with nothing logged and nothing counted. Otherwise, a
  body that is not JSON, or JSON whose top-level value is not an object (so that
  \<open>data.get\<close> raises): the 400 response \<open>Invalid JSON input\<close>. Otherwise, a landmarks
  value that is empty or has a length other than 63: the 400 response
  \<open>Expected 63 landmark features\<close>. A call reaches feature construction and the
  classifier only with the model loaded, a JSON object as body and a landmarks value of
  length 63.
\<close>

theorem checks_in_order:
  "(model env = None \<or> label_encoder env = None \<longrightarrow>
      predict_gesture env r st
        = (HTTP_error Load_check 500 ''Model or encoder not loaded'', [], st))
 \<and> (model env \<noteq> None \<and> label_encoder env \<noteq> None \<and> request_json r = Inl e \<longrightarrow>
      fst (predict_gesture env r st) = HTTP_error Json_check 400 ''Invalid JSON input'')
 \<and> (model env \<noteq> None \<and> label_encoder env \<noteq> None \<and> request_json r = Inr data
        \<and> (\<forall>kvs. data \<noteq> JObj kvs) \<longrightarrow>
      fst (predict_gesture env r st) = HTTP_error Json_check 400 ''Invalid JSON input'')
 \<and> (model env \<noteq> None \<and> label_encoder env \<noteq> None \<and> request_json r = Inr (JObj kvs)
        \<and> data_get (JObj kvs) ''landmarks'' = Inr landmarks
        \<and> (\<not> truthy landmarks \<or> (py_len landmarks = Inr n \<and> n \<noteq> 63)) \<longrightarrow>
      fst (predict_gesture env r st)
        = HTTP_error Count_check 400 ''Expected 63 landmark features'')
 \<and> (is_success (fst (predict_gesture env r st))
        \<or> is_inference_failure (fst (predict_gesture env r st)) \<longrightarrow>
      model env \<noteq> None \<and> label_encoder env \<noteq> None
        \<and> (\<exists>kvs landmarks. request_json r = Inr (JObj kvs)
              \<and> data_get (JObj kvs) ''landmarks'' = Inr landmarks
              \<and> truthy landmarks \<and> py_len landmarks = Inr 63))"
proof -
  have a: "model env = None \<or> label_encoder env = None \<longrightarrow>
      predict_gesture env r st
        = (HTTP_error Load_check 500 ''Model or encoder not loaded'', [], st)"
    using predict_gesture_not_loaded by blast
  have b: "model env \<noteq> None \<and> label_encoder env \<noteq> None \<and> request_json r = Inl e \<longrightarrow>
      fst (predict_gesture env r st) = HTTP_error Json_check 400 ''Invalid JSON input''"
    by (auto simp: predict_gesture_def bind_def)
  have c: "model env \<noteq> None \<and> label_encoder env \<noteq> None \<and> request_json r = Inr data
        \<and> (\<forall>kvs. data \<noteq> JObj kvs) \<longrightarrow>
      fst (predict_gesture env r st) = HTTP_error Json_check 400 ''Invalid JSON input''"
  proof
    assume h: "model env \<noteq> None \<and> label_encoder env \<noteq> None \<and> request_json r = Inr data
        \<and> (\<forall>kvs. data \<noteq> JObj kvs)"
    then obtain e' where "data_get data ''landmarks'' = Inl e'"
      using data_get_not_object by blast
    with h show "fst (predict_gesture env r st) = HTTP_error Json_check 400 ''Invalid JSON input''"
      by (auto simp: predict_gesture_def bind_def)
  qed
  have d: "model env \<noteq> None \<and> label_encoder env \<noteq> None \<and> request_json r = Inr (JObj kvs)
        \<and> data_get (JObj kvs) ''landmarks'' = Inr landmarks
        \<and> (\<not> truthy landmarks \<or> (py_len landmarks = Inr n \<and> n \<noteq> 63)) \<longrightarrow>
      fst (predict_gesture env r st)
        = HTTP_error Count_check 400 ''Expected 63 landmark features''"
  proof
    assume h: "model env \<noteq> None \<and> label_encoder env \<noteq> None \<and> request_json r = Inr (JObj kvs)
        \<and> data_get (JObj kvs) ''landmarks'' = Inr landmarks
        \<and> (\<not> truthy landmarks \<or> (py_len landmarks = Inr n \<and> n \<noteq> 63))"
    then obtain clf enc where l: "model env = Some clf" "label_encoder env = Some enc" by auto
    from h have j: "request_json r = Inr (JObj kvs)"
      and g: "data_get (JObj kvs) ''landmarks'' = Inr landmarks" by simp_all
    show "fst (predict_gesture env r st)
          = HTTP_error Count_check 400 ''Expected 63 landmark features''"
    proof (cases "truthy landmarks")
      case True
      with h have "py_len landmarks = Inr n" "n \<noteq> 63" by simp_all
      from predict_gesture_wrong_length [OF l j g True this] show ?thesis by simp
    next
      case False
      from predict_gesture_falsy [OF l j g False] show ?thesis by simp
    qed
  qed
  have f: "is_success (fst (predict_gesture env r st))
        \<or> is_inference_failure (fst (predict_gesture env r st)) \<longrightarrow>
      model env \<noteq> None \<and> label_encoder env \<noteq> None
        \<and> (\<exists>kvs landmarks. request_json r = Inr (JObj kvs)
              \<and> data_get (JObj kvs) ''landmarks'' = Inr landmarks
              \<and> truthy landmarks \<and> py_len landmarks = Inr 63)"
  proof
    assume h: "is_success (fst (predict_gesture env r st))
        \<or> is_inference_failure (fst (predict_gesture env r st))"
    have "predict_gesture env r st
            = (fst (predict_gesture env r st), fst (snd (predict_gesture env r st)),
               snd (snd (predict_gesture env r st)))" by simp
    from predict_gesture_reaches_inference [OF this h]
    show "model env \<noteq> None \<and> label_encoder env \<noteq> None
          \<and> (\<exists>kvs landmarks. request_json r = Inr (JObj kvs)
                \<and> data_get (JObj kvs) ''landmarks'' = Inr landmarks
                \<and> truthy landmarks \<and> py_len landmarks = Inr 63)" .
  qed
  from a b c d f show ?thesis by (intro conjI)
qed

theorem checks_in_order_witness:
  "predict_gesture not_loaded (call (Inl (PyExc ''JSONDecodeError'' ''Expecting value'')) 1)
       initial_metrics
     = (HTTP_error Load_check 500 ''Model or encoder not loaded'', [], initial_metrics)
 \<and> fst (predict_gesture (service finite_only_classifier)
       (call (Inl (PyExc ''JSONDecodeError'' ''Expecting value'')) 1) initial_metrics)
     = HTTP_error Json_check 400 ''Invalid JSON input''
 \<and> fst (predict_gesture (service finite_only_classifier)
       (call (Inr (JArr [JStr ''landmarks''])) 1) initial_metrics)
     = HTTP_error Json_check 400 ''Invalid JSON input''
 \<and> fst (predict_gesture (service finite_only_classifier)
       (call (landmarks_body (replicate 50 (Finite (1/2)))) 1) initial_metrics)
     = HTTP_error Count_check 400 ''Expected 63 landmark features''
 \<and> request_json (call (landmarks_body zero_pose) 1)
     = Inr (JObj [(''landmarks'', JArr (map JFloat zero_pose))])
 \<and> py_len (JArr (map JFloat zero_pose)) = Inr 63"
proof -
  let ?env = "service finite_only_classifier"
  let ?bad = "call (Inl (PyExc ''JSONDecodeError'' ''Expecting value'')) 1"
  have l: "model ?env \<noteq> None \<and> label_encoder ?env \<noteq> None"
    by (simp add: service_def)
  have a: "predict_gesture not_loaded ?bad initial_metrics
     = (HTTP_error Load_check 500 ''Model or encoder not loaded'', [], initial_metrics)"
    by (rule checks_in_order [of not_loaded ?bad initial_metrics, THEN conjunct1, THEN mp])
       (simp add: not_loaded_def)
  have b: "fst (predict_gesture ?env ?bad initial_metrics)
     = HTTP_error Json_check 400 ''Invalid JSON input''"
    by (rule checks_in_order [of ?env ?bad initial_metrics
              "PyExc ''JSONDecodeError'' ''Expecting value''",
            THEN conjunct2, THEN conjunct1, THEN mp])
       (simp add: l, simp add: call_def)
  have c: "fst (predict_gesture ?env (call (Inr (JArr [JStr ''landmarks''])) 1) initial_metrics)
     = HTTP_error Json_check 400 ''Invalid JSON input''"
    by (rule checks_in_order [of ?env "call (Inr (JArr [JStr ''landmarks''])) 1" initial_metrics _
              "JArr [JStr ''landmarks'']",
            THEN conjunct2, THEN conjunct2, THEN conjunct1, THEN mp])
       (simp add: l, simp add: call_def)
  have d: "fst (predict_gesture ?env
       (call (landmarks_body (replicate 50 (Finite (1/2)))) 1) initial_metrics)
     = HTTP_error Count_check 400 ''Expected 63 landmark features''"
    by (rule checks_in_order [of ?env "call (landmarks_body (replicate 50 (Finite (1/2)))) 1"
              initial_metrics _ _ "[(''landmarks'', JArr (map JFloat (replicate 50 (Finite (1/2)))))]"
              "JArr (map JFloat (replicate 50 (Finite (1/2))))" 50,
            THEN conjunct2, THEN conjunct2, THEN conjunct2, THEN conjunct1, THEN mp])
       (simp add: l, simp add: call_def landmarks_body_def)
  have i: "is_inference_failure (fst (predict_gesture ?env (call (landmarks_body zero_pose) 1)
             initial_metrics))"
    using predict_gesture_validated [of ?env finite_only_classifier gesture_decoder
        "call (landmarks_body zero_pose) 1" "JObj [(''landmarks'', JArr (map JFloat zero_pose))]"
        "JArr (map JFloat zero_pose)" initial_metrics]
      sample_degenerate_refused
    by (simp add: service_def call_def landmarks_body_def zero_pose_def)
  have "\<exists>kvs landmarks. request_json (call (landmarks_body zero_pose) 1) = Inr (JObj kvs)
              \<and> data_get (JObj kvs) ''landmarks'' = Inr landmarks
              \<and> truthy landmarks \<and> py_len landmarks = Inr 63"
    using checks_in_order [of ?env "call (landmarks_body zero_pose) 1" initial_metrics,
            THEN conjunct2, THEN conjunct2, THEN conjunct2, THEN conjunct2, THEN mp] i
    by blast
  then have e: "request_json (call (landmarks_body zero_pose) 1)
             = Inr (JObj [(''landmarks'', JArr (map JFloat zero_pose))])
         \<and> py_len (JArr (map JFloat zero_pose)) = Inr 63"
    by (auto simp: call_def landmarks_body_def)
  from a b c d e show ?thesis by simp
qed

theorem json_array_body_counterexample:
  "request_json (call (Inr (JArr [])) 1) = Inr (JArr [])
 \<and> model (service finite_only_classifier) = Some finite_only_classifier
 \<and> label_encoder (service finite_only_classifier) = Some gesture_decoder
 \<and> fst (predict_gesture (service finite_only_classifier) (call (Inr (JArr [])) 1)
          initial_metrics)
     = HTTP_error Json_check 400 ''Invalid JSON input''"
  unfolding sample_not_object by (simp add: service_loaded call_def)

text \<open>
  C6, as the code has it. For a call that passed validation and whose feature frame was
  built (as it is for every list of 63 numbers), when \<open>model.predict\<close> gives the class
  \<open>k\<close> and \<open>model.predict_proba\<close> a row of probabilities between 0 and 1: the confidence
  returned is the largest entry of that row, hence between 0 and 1, and the gesture
  returned is the decoder's label of \<open>k\<close>, the class that \<open>predict\<close> gave, a member of the
  decoder's vocabulary; a class the decoder does not know ends the call with a 500
  response. The code never compares \<open>k\<close> with the position of the largest probability.
\<close>

theorem returned_confidence_and_gesture:
  assumes "model env = Some clf" and "label_encoder env = Some enc"
      and "request_json r = Inr data" and "data_get data ''landmarks'' = Inr landmarks"
      and "truthy landmarks" and "py_len landmarks = Inr 63"
      and "build_features env landmarks = Inr features"
      and "predict clf features = Inr k" and "predict_proba clf features = Inr ps"
      and "probability_row ps"
  shows "\<exists>c. Finite c \<in> set ps \<and> (\<forall>q. Finite q \<in> set ps \<longrightarrow> q \<le> c) \<and> 0 \<le> c \<and> c \<le> 1
           \<and> fst (predict_gesture env r st)
               = (if 0 \<le> k \<and> k < int (length (classes enc))
                  then Returned \<lparr>gesture = classes enc ! nat k,
                                 direction = map_of GESTURE_MAPPING (classes enc ! nat k),
                                 confidence = Finite c, timestamp = now_iso r\<rparr>
                  else HTTP_error Inference 500 (exc_str (unseen_label enc k)))
           \<and> (0 \<le> k \<and> k < int (length (classes enc))
                \<longrightarrow> classes enc ! nat k \<in> set (classes enc))"
proof -
  from np_max_probability_row [OF assms(10)] obtain c where
    c: "np_max ps = Inr (Finite c)" "Finite c \<in> set ps" "\<forall>q. Finite q \<in> set ps \<longrightarrow> q \<le> c"
       "0 \<le> c" "c \<le> 1" by blast
  have i: "infer env clf enc landmarks
             = (if 0 \<le> k \<and> k < int (length (classes enc))
                then Inr (classes enc ! nat k, map_of GESTURE_MAPPING (classes enc ! nat k), Finite c)
                else Inl (unseen_label enc k))"
    by (simp add: infer_def assms(7,8,9) c(1) bind_def classify_def inverse_transform_def)
  have o: "fst (predict_gesture env r st)
               = (if 0 \<le> k \<and> k < int (length (classes enc))
                  then Returned \<lparr>gesture = classes enc ! nat k,
                                 direction = map_of GESTURE_MAPPING (classes enc ! nat k),
                                 confidence = Finite c, timestamp = now_iso r\<rparr>
                  else HTTP_error Inference 500 (exc_str (unseen_label enc k)))"
    unfolding predict_gesture_validated [OF assms(1-6)] i by simp
  have v: "0 \<le> k \<and> k < int (length (classes enc)) \<longrightarrow> classes enc ! nat k \<in> set (classes enc)"
    by auto
  from c o v show ?thesis by blast
qed

theorem returned_confidence_and_gesture_witness:
  "fst (predict_gesture (service (constant_classifier 0 [Finite (1/4), Finite (3/4)]))
          (call (landmarks_body open_pose) 1) initial_metrics)
     = Returned \<lparr>gesture = ''dislike'', direction = Some ''down'', confidence = Finite (3/4),
                 timestamp = ''2025-01-01T00:00:00''\<rparr>"
proof -
  let ?clf = "constant_classifier 0 [Finite (1/4), Finite (3/4)]"
  let ?lm = "JArr (map JFloat open_pose)"
  obtain features where f: "build_features (service ?clf) ?lm = Inr features"
    using build_features_floats [OF open_pose_length] by blast
  have l: "model (service ?clf) = Some ?clf" "label_encoder (service ?clf) = Some gesture_decoder"
    by (rule service_loaded)+
  have j: "request_json (call (landmarks_body open_pose) 1) = Inr (JObj [(''landmarks'', ?lm)])"
    by (simp add: call_def landmarks_body_def)
  have g: "data_get (JObj [(''landmarks'', ?lm)]) ''landmarks'' = Inr ?lm" by simp
  have t: "truthy ?lm" by (simp add: open_pose_def open_pose_coordinates_def)
  have n: "py_len ?lm = Inr 63" by (simp add: open_pose_length)
  have p: "predict ?clf features = Inr 0" "predict_proba ?clf features = Inr [Finite (1/4), Finite (3/4)]"
    by (simp_all add: constant_classifier_def)
  have pr: "probability_row [Finite (1/4), Finite (3/4)]" by (simp add: probability_row_def)
  from returned_confidence_and_gesture [OF l j g t n f p pr, of initial_metrics]
  obtain c where c: "Finite c \<in> set [Finite (1/4), Finite (3/4)]"
    "\<forall>q. Finite q \<in> set [Finite (1/4), Finite (3/4)] \<longrightarrow> q \<le> c"
    and o: "fst (predict_gesture (service ?clf) (call (landmarks_body open_pose) 1) initial_metrics)
               = (if 0 \<le> (0::int) \<and> 0 < int (length (classes gesture_decoder))
                  then Returned \<lparr>gesture = classes gesture_decoder ! nat 0,
                                 direction = map_of GESTURE_MAPPING (classes gesture_decoder ! nat 0),
                                 confidence = Finite c,
                                 timestamp = now_iso (call (landmarks_body open_pose) 1)\<rparr>
                  else HTTP_error Inference 500 (exc_str (unseen_label gesture_decoder 0)))"
    by blast
  have "Finite (3/4) \<in> set [Finite (1/4), Finite (3/4)]" by simp
  with c(2) have "3/4 \<le> c" by blast
  with c(1) have "c = 3/4" by auto
  with o show ?thesis by (simp add: gesture_decoder_def GESTURE_MAPPING_def call_def)
qed

theorem predicted_class_not_most_probable_counterexample:
  "probability_row [Finite (1/4), Finite (3/4)]
 \<and> np_max [Finite (1/4), Finite (3/4)] = Inr ([Finite (1/4), Finite (3/4)] ! 1)
 \<and> inverse_transform gesture_decoder 1 = Inr ''like''

 \<and> fst (predict_gesture (service (constant_classifier 0 [Finite (1/4), Finite (3/4)]))
          (call (landmarks_body open_pose) 1) initial_metrics)
     = Returned \<lparr>gesture = ''dislike'', direction = Some ''down'', confidence = Finite (3/4),
                 timestamp = ''2025-01-01T00:00:00''\<rparr>"
proof -
  have m: "np_max [Finite (1/4), Finite (3/4)] = Inr (Finite (3/4))" by simp
  have d: "inverse_transform gesture_decoder 0 = Inr ''dislike''"
    by (simp add: inverse_transform_def gesture_decoder_def)
  have "predict_gesture (service (constant_classifier 0 [Finite (1/4), Finite (3/4)]))
          (call (landmarks_body open_pose) 1) initial_metrics
     = (Returned \<lparr>gesture = ''dislike'', direction = map_of GESTURE_MAPPING ''dislike'',
                  confidence = Finite (3/4), timestamp = ''2025-01-01T00:00:00''\<rparr>,
        [Log_info_prediction ''dislike'' (map_of GESTURE_MAPPING ''dislike'') (Finite (3/4))],
        initial_metrics\<lparr>latency_sum := latency_sum initial_metrics + 1,
           prediction_count := prediction_count initial_metrics + 1\<rparr>)"
    by (rule constant_classifier_call [OF open_pose_length m d])
  then show ?thesis
    by (simp add: probability_row_def inverse_transform_def gesture_decoder_def
          GESTURE_MAPPING_def)
qed

text \<open>
  C7. A call that passed validation and raises inside the \<open>try\<close> block adds exactly one
  to \<open>error_count\<close>, leaves \<open>prediction_count\<close> and \<open>latency_sum\<close> as they were and
  ends with a 500 response whose detail is \<open>str(e)\<close> of the exception; the calls after it
  are served from the metrics it left.
\<close>

theorem inference_failure_counts_one_error:
  assumes "model env = Some clf" and "label_encoder env = Some enc"
      and "request_json r = Inr data" and "data_get data ''landmarks'' = Inr landmarks"
      and "truthy landmarks" and "py_len landmarks = Inr 63"
      and "infer env clf enc landmarks = Inl e"
  shows "predict_gesture env r st
           = (HTTP_error Inference 500 (exc_str e),
              [Log_error (''Prediction error: '' @ exc_str e)],
              st\<lparr>error_count := error_count st + 1\<rparr>)
       \<and> error_count (snd (snd (predict_gesture env r st))) = error_count st + 1
       \<and> prediction_count (snd (snd (predict_gesture env r st))) = prediction_count st
       \<and> latency_sum (snd (snd (predict_gesture env r st))) = latency_sum st
       \<and> serve env (r # rs) st
           = (HTTP_error Inference 500 (exc_str e)
                # fst (serve env rs (st\<lparr>error_count := error_count st + 1\<rparr>)),
              snd (serve env rs (st\<lparr>error_count := error_count st + 1\<rparr>)))"
proof -
  have p: "predict_gesture env r st
           = (HTTP_error Inference 500 (exc_str e),
              [Log_error (''Prediction error: '' @ exc_str e)],
              st\<lparr>error_count := error_count st + 1\<rparr>)"
    using predict_gesture_validated [OF assms(1-6), of st] assms(7) by simp
  then show ?thesis by (simp split: prod.splits)
qed

theorem inference_failure_counts_one_error_witness:
  "predict_gesture (service finite_only_classifier) (call (landmarks_body zero_pose) 1)
       \<lparr>prediction_count = 5, error_count = 2, latency_sum = 3\<rparr>
     = (HTTP_error Inference 500 ''Input X contains NaN.'',
        [Log_error ''Prediction error: Input X contains NaN.''],
        \<lparr>prediction_count = 5, error_count = 3, latency_sum = 3\<rparr>)"
proof -
  have "predict_gesture (service finite_only_classifier) (call (landmarks_body zero_pose) 1)
       \<lparr>prediction_count = 5, error_count = 2, latency_sum = 3\<rparr>
     = (HTTP_error Inference 500 (exc_str (PyExc ''ValueError'' ''Input X contains NaN.'')),
        [Log_error (''Prediction error: '' @ exc_str (PyExc ''ValueError'' ''Input X contains NaN.''))],
        \<lparr>prediction_count = 5, error_count = 2, latency_sum = 3\<rparr>
          \<lparr>error_count := error_count \<lparr>prediction_count = 5, error_count = 2, latency_sum = 3\<rparr> + 1\<rparr>)"
    using inference_failure_counts_one_error
      [of "service finite_only_classifier" finite_only_classifier gesture_decoder
          "call (landmarks_body zero_pose) 1" "JObj [(''landmarks'', JArr (map JFloat zero_pose))]"
          "JArr (map JFloat zero_pose)" "PyExc ''ValueError'' ''Input X contains NaN.''"
          "\<lparr>prediction_count = 5, error_count = 2, latency_sum = 3\<rparr>" "[]"]
      sample_degenerate_refused
    by (simp add: service_def call_def landmarks_body_def zero_pose_def)
  then show ?thesis by simp
qed

text \<open>
  C8. A call that ends before the \<open>try\<close> block is entered (model or encoder not loaded,
  body that is not JSON or has no \<open>get\<close>, landmarks value empty or not of length 63)
  leaves the three counters as they were.
\<close>

theorem validation_failure_keeps_metrics:
  assumes "predict_gesture env r st = (out, logs, st')"
      and "is_validation_failure out"
  shows "st' = st"
  using predict_gesture_effect [OF assms(1)] validation_failure_not_counted [OF assms(2)]
  by simp

theorem validation_failure_keeps_metrics_witness:
  "snd (snd (predict_gesture not_loaded (call (landmarks_body open_pose) 1)
       \<lparr>prediction_count = 5, error_count = 2, latency_sum = 3\<rparr>))
     = \<lparr>prediction_count = 5, error_count = 2, latency_sum = 3\<rparr>
   \<and> snd (snd (predict_gesture (service finite_only_classifier)
       (call (Inl (PyExc ''JSONDecodeError'' ''Expecting value: line 1 column 1 (char 0)'')) 1)
       \<lparr>prediction_count = 5, error_count = 2, latency_sum = 3\<rparr>))
     = \<lparr>prediction_count = 5, error_count = 2, latency_sum = 3\<rparr>
   \<and> snd (snd (predict_gesture (service finite_only_classifier)
       (call (landmarks_body (replicate 50 (Finite (1/2)))) 1)
       \<lparr>prediction_count = 5, error_count = 2, latency_sum = 3\<rparr>))
     = \<lparr>prediction_count = 5, error_count = 2, latency_sum = 3\<rparr>"
proof -
  let ?st = "\<lparr>prediction_count = 5, error_count = 2, latency_sum = 3\<rparr>"
  have a: "snd (snd (predict_gesture not_loaded (call (landmarks_body open_pose) 1) ?st)) = ?st"
    using validation_failure_keeps_metrics
      [of not_loaded "call (landmarks_body open_pose) 1" ?st
          "HTTP_error Load_check 500 ''Model or encoder not loaded''" "[]"
          "snd (snd (predict_gesture not_loaded (call (landmarks_body open_pose) 1) ?st))"]
    by (simp add: sample_not_loaded)
  have b: "snd (snd (predict_gesture (service finite_only_classifier)
       (call (Inl (PyExc ''JSONDecodeError'' ''Expecting value: line 1 column 1 (char 0)'')) 1) ?st)) = ?st"
    using validation_failure_keeps_metrics
      [of "service finite_only_classifier"
          "call (Inl (PyExc ''JSONDecodeError'' ''Expecting value: line 1 column 1 (char 0)'')) 1" ?st
          "HTTP_error Json_check 400 ''Invalid JSON input''"
          "[Log_error ''Invalid JSON input: Expecting value: line 1 column 1 (char 0)'']"
          "snd (snd (predict_gesture (service finite_only_classifier)
             (call (Inl (PyExc ''JSONDecodeError'' ''Expecting value: line 1 column 1 (char 0)'')) 1) ?st))"]
    by (simp add: sample_bad_json)
  have c: "snd (snd (predict_gesture (service finite_only_classifier)
       (call (landmarks_body (replicate 50 (Finite (1/2)))) 1) ?st)) = ?st"
    using validation_failure_keeps_metrics
      [of "service finite_only_classifier"
          "call (landmarks_body (replicate 50 (Finite (1/2)))) 1" ?st
          "HTTP_error Count_check 400 ''Expected 63 landmark features''"
          "[Log_error ''Invalid input length: expected 63 landmarks, got 50'']"
          "snd (snd (predict_gesture (service finite_only_classifier)
             (call (landmarks_body (replicate 50 (Finite (1/2)))) 1) ?st))"]
    by (simp add: sample_wrong_count)
  from a b c show ?thesis by simp
qed

text \<open>
  C9, as the code has it. With the model loaded and a JSON object as body, a \<open>landmarks\<close>
  key that is absent, null or an empty list ends the call with the 400 response of the
  count check, \<open>Expected 63 landmark features\<close>, not with \<open>Invalid JSON input\<close>. A
  body that is valid JSON but no object, such as \<open>null\<close>, has no such key either and ends
  with \<open>Invalid JSON input\<close>.
\<close>

theorem missing_landmarks_is_count_error:
  assumes "model env = Some clf" and "label_encoder env = Some enc"
      and "request_json r = Inr (JObj kvs)"
      and "map_of (rev kvs) ''landmarks'' = None
         \<or> map_of (rev kvs) ''landmarks'' = Some JNull
         \<or> map_of (rev kvs) ''landmarks'' = Some (JArr [])"
  shows "predict_gesture env r st
           = (HTTP_error Count_check 400 ''Expected 63 landmark features'',
              [Log_error ''Invalid input length: expected 63 landmarks, got none''], st)"
proof -
  obtain landmarks where g: "data_get (JObj kvs) ''landmarks'' = Inr landmarks"
    and f: "\<not> truthy landmarks"
    using assms(4) by auto
  from predict_gesture_falsy [OF assms(1,2,3) g f] show ?thesis .
qed

theorem missing_landmarks_is_count_error_witness:
  "predict_gesture (service finite_only_classifier) (call (Inr (JObj [])) 1) initial_metrics
     = (HTTP_error Count_check 400 ''Expected 63 landmark features'',
        [Log_error ''Invalid input length: expected 63 landmarks, got none''], initial_metrics)
   \<and> predict_gesture (service finite_only_classifier)
        (call (Inr (JObj [(''landmarks'', JNull)])) 1) initial_metrics
     = (HTTP_error Count_check 400 ''Expected 63 landmark features'',
        [Log_error ''Invalid input length: expected 63 landmarks, got none''], initial_metrics)
   \<and> predict_gesture (service finite_only_classifier)
        (call (Inr (JObj [(''landmarks'', JArr [])])) 1) initial_metrics
     = (HTTP_error Count_check 400 ''Expected 63 landmark features'',
        [Log_error ''Invalid input length: expected 63 landmarks, got none''], initial_metrics)"
proof -
  have a: "predict_gesture (service finite_only_classifier) (call (Inr (JObj [])) 1) initial_metrics
     = (HTTP_error Count_check 400 ''Expected 63 landmark features'',
        [Log_error ''Invalid input length: expected 63 landmarks, got none''], initial_metrics)"
    by (rule missing_landmarks_is_count_error [where kvs = "[]"])
       (simp_all add: service_def call_def)
  have b: "predict_gesture (service finite_only_classifier)
        (call (Inr (JObj [(''landmarks'', JNull)])) 1) initial_metrics
     = (HTTP_error Count_check 400 ''Expected 63 landmark features'',
        [Log_error ''Invalid input length: expected 63 landmarks, got none''], initial_metrics)"
    by (rule missing_landmarks_is_count_error [where kvs = "[(''landmarks'', JNull)]"])
       (simp_all add: service_def call_def)
  have c: "predict_gesture (service finite_only_classifier)
        (call (Inr (JObj [(''landmarks'', JArr [])])) 1) initial_metrics
     = (HTTP_error Count_check 400 ''Expected 63 landmark features'',
        [Log_error ''Invalid input length: expected 63 landmarks, got none''], initial_metrics)"
    by (rule missing_landmarks_is_count_error [where kvs = "[(''landmarks'', JArr [])]"])
       (simp_all add: service_def call_def)
  from a b c show ?thesis by simp
qed

theorem missing_landmarks_null_body_counterexample:
  "request_json (call (Inr JNull) 1) = Inr JNull
 \<and> model (service finite_only_classifier) = Some finite_only_classifier
 \<and> label_encoder (service finite_only_classifier) = Some gesture_decoder
 \<and> predict_gesture (service finite_only_classifier) (call (Inr JNull) 1) initial_metrics
     = (HTTP_error Json_check 400 ''Invalid JSON input'',
        [Log_error (''Invalid JSON input: '' @ quoted ''NoneType''
                      @ '' object has no attribute '' @ quoted ''get'')],
        initial_metrics)"
  by (simp add: predict_gesture_def service_def call_def bind_def)

text \<open>
  C10. In every state the process reaches, the field \<open>input_validation_errors\<close> of the
  metrics report is \<open>error_count\<close>, the same number as the model metrics' error count:
  the number of calls that failed inside the \<open>try\<close> block. The calls rejected by
  validation are not in it.
\<close>

theorem input_validation_errors_is_error_count:
  assumes "serve env reqs initial_metrics = (outs, st)"
  shows "input_validation_errors (data_metrics (get_metrics t0 t txt st)) = error_count st
       \<and> input_validation_errors (data_metrics (get_metrics t0 t txt st))
           = reported_error_count (model_metrics (get_metrics t0 t txt st))
       \<and> input_validation_errors (data_metrics (get_metrics t0 t txt st))
           = int (length (filter is_inference_failure outs))"
  using serve_counts [OF assms]
  by (simp add: get_metrics_def Let_def initial_metrics_def)

theorem input_validation_errors_is_error_count_witness:
  "serve (service finite_only_classifier)
      [call (Inl (PyExc ''JSONDecodeError'' ''Expecting value: line 1 column 1 (char 0)'')) 1,
       call (landmarks_body (replicate 50 (Finite (1/2)))) 1] initial_metrics
     = ([HTTP_error Json_check 400 ''Invalid JSON input'',
         HTTP_error Count_check 400 ''Expected 63 landmark features''], initial_metrics)
   \<and> length (filter is_validation_failure
        [HTTP_error Json_check 400 ''Invalid JSON input'',
         HTTP_error Count_check 400 ''Expected 63 landmark features'']) = 2
   \<and> input_validation_errors (data_metrics (get_metrics 0 10 [] initial_metrics)) = 0"
  (is "?run \<and> ?rest")
proof -
  have run: ?run
    by (simp add: sample_bad_json sample_wrong_count)
  from input_validation_errors_is_error_count [OF run, of 0 10 "[]"] run
  show ?thesis by simp
qed

end
